theory Spec2Isabelle
  imports Complex_Main
begin

section \<open>The defer block runtime (packages/core/src/defer/instructions.ts)\<close>

subsection \<open>Data model\<close>

text \<open>
  \<open>DeferBlockState\<close> is the public enum of rendered states. Its numeric values are the ones
  the doc comment of \<open>isValidStateChange\<close> cites: placeholder \<open>0\<close>, loading \<open>1\<close>,
  complete \<open>2\<close>, error \<open>3\<close>.
\<close>

datatype DeferBlockState = Placeholder | Loading | Complete | Error

fun stateNum :: "DeferBlockState \<Rightarrow> int" where
  "stateNum Placeholder = 0"
| "stateNum Loading = 1"
| "stateNum Complete = 2"
| "stateNum Error = 3"

text \<open>
  Modelled from the spec: the enum \<open>DeferBlockInternalState\<close> is declared in
  \<open>defer/interfaces.ts\<close>, which is not among the sources. The slot \<open>DEFER_BLOCK_STATE\<close>
  holds a \<open>DeferBlockState\<close> or the only member of that enum, \<open>Initial\<close>, which ranks
  below \<open>Placeholder\<close>; the number \<open>-1\<close> is the one \<open>renderDeferBlockState\<close> uses for
  "nothing buffered".
\<close>

datatype StoredState = Initial | Rendered DeferBlockState

fun storedNum :: "StoredState \<Rightarrow> int" where
  "storedNum Initial = - 1"
| "storedNum (Rendered s) = stateNum s"

datatype DeferDependenciesLoadingState = NOT_STARTED | IN_PROGRESS | COMPLETE | FAILED

text \<open>
  Values of the host that the runtime only passes around are identified by numbers:
  a dependency resolver function, a promise, a provider, a directive or pipe definition.
\<close>

type_synonym DependencyResolverFn = nat
type_synonym PromiseRef = nat
type_synonym Provider = nat
type_synonym DefRef = nat

text \<open>
  Modelled from the spec: the block configurations are declared in
  \<open>defer/interfaces.ts\<close> (not among the sources). The placeholder configuration carries a
  minimum duration, the loading configuration a minimum duration and a delay-after
  duration, each nullable, in milliseconds.
\<close>

type_synonym DeferredPlaceholderBlockConfig = "int option"
type_synonym DeferredLoadingBlockConfig = "int option \<times> int option"

record TDeferBlockDetails =
  primaryTmplIndex :: nat
  loadingTmplIndex :: "nat option"
  placeholderTmplIndex :: "nat option"
  errorTmplIndex :: "nat option"
  placeholderBlockConfig :: "DeferredPlaceholderBlockConfig option"
  loadingBlockConfig :: "DeferredLoadingBlockConfig option"
  dependencyResolverFn :: "DependencyResolverFn option"
  loadingState :: DeferDependenciesLoadingState
  loadingPromise :: "PromiseRef option"
  providers :: "Provider list option"

text \<open>
  A cleanup function is a closure of the host. The ones this file stores are: the function
  \<open>scheduleTimerTrigger\<close> returns (it cancels that timer), the function a scheduling
  function (\<open>onIdle\<close>, \<open>onTimer(delay)\<close>) returns (it cancels that hook), and the function
  the \<open>defer\<close> instruction stores, which unsubscribes from the destruction of the host view.
\<close>

datatype CleanupFn = CancelTimer nat | CancelHook nat | RemoveLViewOnDestroy

record LDeferBlockDetails =
  NEXT_DEFER_BLOCK_STATE :: "DeferBlockState option"
  DEFER_BLOCK_STATE :: StoredState
  STATE_IS_FROZEN_UNTIL :: "int option"
  LOADING_AFTER_CLEANUP_FN :: "CleanupFn option"
  TRIGGER_CLEANUP_FNS :: "CleanupFn list option"
  PREFETCH_TRIGGER_CLEANUP_FNS :: "CleanupFn list option"

datatype RuntimeErr = DEFER_LOADING_FAILED | TemplateError nat

text \<open>
  The continuation \<open>triggerResourceLoading\<close> chains to the promise it stores: the one
  for a block without a resolver function, or the one that reads the settled results.
  Either closure holds the identifier of its pending task.
\<close>

datatype LoadingThen = ThenNoDeps nat | ThenSettled nat

datatype ScheduleFn = OnIdle | OnTimer int
datatype TriggerCallback = TriggerDeferBlock | TriggerPrefetching

text \<open>Values a \<open>when\<close> binding can take, as far as \<open>Boolean(rawValue)\<close> tells them apart.\<close>

datatype JSValue = JSUndefined | JSNull | JSBool bool | JSNumber int | JSString string

text \<open>
  One defer block instance with everything its instructions read and write:
  the static details of the block (\<open>tDetails\<close>), the details of the instance
  (\<open>lDetails\<close>), the views mounted in the block's container (each named by the index of
  its template), the host view's destroyed flag, the timers armed through
  \<open>scheduleTimerTrigger\<close> (identifier and due time), the hooks armed through a scheduling
  function, the subscription to the destruction of the host view, the errors given to
  \<open>handleError\<close>, the pending tasks, the continuation chained to the loading promise, the
  promises that \<open>renderDeferStateAfterResourceLoading\<close> subscribed to (one entry per
  subscription), the resolver functions invoked so far, the registries of the primary
  block's view and the slot of the \<open>when\<close> binding.
\<close>

record World =
  tDetails :: TDeferBlockDetails
  lDetails :: LDeferBlockDetails
  lContainer :: "nat list"
  destroyed :: bool
  timers :: "(nat \<times> int) list"
  timerSeq :: nat
  hooks :: "(nat \<times> ScheduleFn \<times> TriggerCallback) list"
  hookSeq :: nat
  lViewOnDestroy :: bool
  handledErrors :: "RuntimeErr list"
  pendingTasks :: "nat list"
  taskSeq :: nat
  promiseSeq :: nat
  loadingThen :: "LoadingThen option"
  thenCallbacks :: "PromiseRef list"
  resolverCalls :: "DependencyResolverFn list"
  directiveRegistry :: "DefRef list option"
  pipeRegistry :: "DefRef list option"
  bindingSlot :: "JSValue option"

text \<open>
  What the surrounding platform decides: whether the injector reports a browser
  (\<open>isPlatformBrowser\<close>), whether \<open>DEFER_BLOCK_CONFIG\<close> asks for manual behaviour, whether
  creating the view of a template throws, the dev mode flag with the dependency
  interceptor configured in it, and the providers \<open>internalImportProvidersFrom\<close> extracts.
\<close>

record Env =
  isPlatformBrowser :: bool
  behaviorManual :: bool
  renderThrows :: "nat \<Rightarrow> bool"
  ngDevMode :: bool
  interceptor :: "(DependencyResolverFn option \<Rightarrow> DependencyResolverFn option) option"
  importProvidersFrom :: "DefRef list \<Rightarrow> Provider list"

subsection \<open>Helpers of \<open>defer/utils.ts\<close>, \<open>defer/timer_scheduler.ts\<close> and the view runtime\<close>

text \<open>
  Modelled from the spec: \<open>getTemplateIndexForState\<close>, \<open>getMinimumDurationForState\<close> and
  \<open>getLoadingBlockAfter\<close> live in \<open>defer/utils.ts\<close>, which is not among the sources. The
  static details hold one template slot index per sub-view (nullable except the primary
  one) and the minimum-duration and delay-after configuration of the loading and
  placeholder blocks.
\<close>

fun getTemplateIndexForState :: "DeferBlockState \<Rightarrow> TDeferBlockDetails \<Rightarrow> nat option" where
  "getTemplateIndexForState Complete t = Some (primaryTmplIndex t)"
| "getTemplateIndexForState Loading t = loadingTmplIndex t"
| "getTemplateIndexForState Error t = errorTmplIndex t"
| "getTemplateIndexForState Placeholder t = placeholderTmplIndex t"

fun getMinimumDurationForState :: "TDeferBlockDetails \<Rightarrow> DeferBlockState \<Rightarrow> int option" where
  "getMinimumDurationForState t Placeholder =
     (case placeholderBlockConfig t of None \<Rightarrow> None | Some minimumTime \<Rightarrow> minimumTime)"
| "getMinimumDurationForState t Loading =
     (case loadingBlockConfig t of None \<Rightarrow> None | Some (minimumTime, afterTime) \<Rightarrow> minimumTime)"
| "getMinimumDurationForState t Complete = None"
| "getMinimumDurationForState t Error = None"

definition getLoadingBlockAfter :: "TDeferBlockDetails \<Rightarrow> int option" where
  "getLoadingBlockAfter t =
     (case loadingBlockConfig t of None \<Rightarrow> None | Some (minimumTime, afterTime) \<Rightarrow> afterTime)"

text \<open>
  Modelled from the spec: \<open>scheduleTimerTrigger\<close> (\<open>defer/timer_scheduler.ts\<close>, not among
  the sources) arms a timer for the callback and returns the function that cancels it.
  Every timer armed by \<open>scheduleDeferBlockUpdate\<close> runs the same callback over the same
  instance, so a timer is its identifier and its due time.
\<close>

definition scheduleTimerTrigger :: "int \<Rightarrow> int \<Rightarrow> World \<Rightarrow> CleanupFn \<times> World" where
  "scheduleTimerTrigger timeout now w =
     (CancelTimer (timerSeq w),
      w\<lparr>timers := timers w @ [(timerSeq w, now + timeout)], timerSeq := Suc (timerSeq w)\<rparr>)"

fun invokeCleanupFn :: "CleanupFn \<Rightarrow> World \<Rightarrow> World" where
  "invokeCleanupFn (CancelTimer i) w = w\<lparr>timers := filter (\<lambda>p. fst p \<noteq> i) (timers w)\<rparr>"
| "invokeCleanupFn (CancelHook i) w = w\<lparr>hooks := filter (\<lambda>p. fst p \<noteq> i) (hooks w)\<rparr>"
| "invokeCleanupFn RemoveLViewOnDestroy w = w\<lparr>lViewOnDestroy := False\<rparr>"

text \<open>
  Modelled from the spec: \<open>removeLViewFromLContainer\<close> and \<open>addLViewToLContainer\<close> live
  in \<open>render3/view_manipulation.ts\<close>, which is not among the sources. Rendering a state
  removes the previously mounted sub-view (if any) from the block's view container and
  mounts the sub-view of the new state: the first detaches the view at an index if there
  is one, the second inserts a view at an index.
\<close>

definition removeLViewFromLContainer :: "nat list \<Rightarrow> nat \<Rightarrow> nat list" where
  "removeLViewFromLContainer views viewIndex = take viewIndex views @ drop (Suc viewIndex) views"

definition addLViewToLContainer :: "nat list \<Rightarrow> nat \<Rightarrow> nat \<Rightarrow> nat list" where
  "addLViewToLContainer views embeddedLView viewIndex =
     take viewIndex views @ embeddedLView # drop viewIndex views"

text \<open>
  Modelled from the spec: \<open>handleError\<close> lives in \<open>render3/instructions/shared.ts\<close>, which
  is not among the sources. It surfaces the error to the enclosing error handler; the
  world keeps the errors handed over, in order.
\<close>

definition handleError :: "RuntimeErr \<Rightarrow> World \<Rightarrow> World" where
  "handleError e w = w\<lparr>handledErrors := handledErrors w @ [e]\<rparr>"

subsection \<open>The state transition engine\<close>

definition isValidStateChange :: "int \<Rightarrow> int \<Rightarrow> bool" where
  "isValidStateChange currentState newState = (currentState < newState)"

text \<open>
  \<open>applyDeferBlockState\<close> returns the world it leaves and whether it threw: the slot
  \<open>DEFER_BLOCK_STATE\<close> is written and the old view removed before the view of the new
  template is created, so an exception of that creation leaves both changes behind.
\<close>

definition applyDeferBlockState :: "Env \<Rightarrow> DeferBlockState \<Rightarrow> World \<Rightarrow> World \<times> bool" where
  "applyDeferBlockState env newState w =
     (case getTemplateIndexForState newState (tDetails w) of
        None \<Rightarrow> (w, False)
      | Some stateTmplIndex \<Rightarrow>
          let w1 = w\<lparr>lDetails := (lDetails w)\<lparr>DEFER_BLOCK_STATE := Rendered newState\<rparr>\<rparr>;
              viewIndex = 0;
              w2 = w1\<lparr>lContainer := removeLViewFromLContainer (lContainer w1) viewIndex\<rparr>
          in if renderThrows env stateTmplIndex then (w2, True)
             else (w2\<lparr>lContainer := addLViewToLContainer (lContainer w2) stateTmplIndex viewIndex\<rparr>,
                   False))"

definition scheduleDeferBlockUpdate :: "int \<Rightarrow> int \<Rightarrow> World \<Rightarrow> CleanupFn \<times> World" where
  "scheduleDeferBlockUpdate timeout now w = scheduleTimerTrigger timeout now w"

text \<open>
  \<open>applyDeferBlockStateWithScheduling\<close>, with its inner blocks named: the block that
  defers the loading state (\<open>scheduleLoadingAfter\<close>), the block that stops a pending
  loading timer when a later state arrives (\<open>stopLoadingAfter\<close>), the block that freezes
  the state for its minimum duration (\<open>freezeForMinimum\<close>), and the \<open>else\<close> branch that
  runs the last two around \<open>applyDeferBlockState\<close> (\<open>applyUnscheduled\<close>). An exception of
  \<open>applyDeferBlockState\<close> leaves the function before the minimum duration is read.
\<close>

definition scheduleLoadingAfter :: "int \<Rightarrow> int \<Rightarrow> DeferBlockState \<Rightarrow> World \<Rightarrow> World" where
  "scheduleLoadingAfter loadingAfter now newState w =
     (let w2 = w\<lparr>lDetails := (lDetails w)\<lparr>NEXT_DEFER_BLOCK_STATE := Some newState\<rparr>\<rparr>;
          (cleanupFn, w3) = scheduleDeferBlockUpdate loadingAfter now w2
      in w3\<lparr>lDetails := (lDetails w3)\<lparr>LOADING_AFTER_CLEANUP_FN := Some cleanupFn\<rparr>\<rparr>)"

definition stopLoadingAfter :: "DeferBlockState \<Rightarrow> World \<Rightarrow> World" where
  "stopLoadingAfter newState w =
     (case LOADING_AFTER_CLEANUP_FN (lDetails w) of
        None \<Rightarrow> w
      | Some cleanupFn \<Rightarrow>
          if stateNum newState > stateNum Loading
          then
            let w' = invokeCleanupFn cleanupFn w
            in w'\<lparr>lDetails := (lDetails w')\<lparr>LOADING_AFTER_CLEANUP_FN := None,
                                             NEXT_DEFER_BLOCK_STATE := None\<rparr>\<rparr>
          else w)"

definition freezeForMinimum :: "int \<Rightarrow> DeferBlockState \<Rightarrow> World \<Rightarrow> World" where
  "freezeForMinimum now newState w =
     (case getMinimumDurationForState (tDetails w) newState of
        None \<Rightarrow> w
      | Some duration \<Rightarrow>
          snd (scheduleDeferBlockUpdate duration now
                 (w\<lparr>lDetails := (lDetails w)\<lparr>STATE_IS_FROZEN_UNTIL := Some (now + duration)\<rparr>\<rparr>)))"

definition applyUnscheduled :: "Env \<Rightarrow> int \<Rightarrow> DeferBlockState \<Rightarrow> World \<Rightarrow> World \<times> bool" where
  "applyUnscheduled env now newState w =
     (let (w3, thrown) = applyDeferBlockState env newState (stopLoadingAfter newState w)
      in if thrown then (w3, True) else (freezeForMinimum now newState w3, False))"

definition applyDeferBlockStateWithScheduling ::
  "Env \<Rightarrow> int \<Rightarrow> DeferBlockState \<Rightarrow> World \<Rightarrow> World \<times> bool" where
  "applyDeferBlockStateWithScheduling env now newState w =
     (if (case STATE_IS_FROZEN_UNTIL (lDetails w) of None \<Rightarrow> True | Some until \<Rightarrow> until \<le> now)
      then
        let w1 = w\<lparr>lDetails := (lDetails w)\<lparr>STATE_IS_FROZEN_UNTIL := None\<rparr>\<rparr>
        in (case getLoadingBlockAfter (tDetails w1) of
              None \<Rightarrow> applyUnscheduled env now newState w1
            | Some loadingAfter \<Rightarrow>
                if newState = Loading \<and> LOADING_AFTER_CLEANUP_FN (lDetails w1) = None
                then (scheduleLoadingAfter loadingAfter now newState w1, False)
                else applyUnscheduled env now newState w1)
      else (w\<lparr>lDetails := (lDetails w)\<lparr>NEXT_DEFER_BLOCK_STATE := Some newState\<rparr>\<rparr>, False))"

text \<open>
  \<open>needsScheduling\<close> of \<open>renderDeferBlockState\<close>: the last disjunct is used for its
  truthiness, so a placeholder minimum of \<open>0\<close> counts as absent. The configurations are
  installed by \<open>deferEnableTimerScheduling\<close> only, which also installs
  \<open>applyDeferBlockStateWithScheduling\<close> as the scheduling implementation.
\<close>

definition needsScheduling :: "Env \<Rightarrow> bool \<Rightarrow> TDeferBlockDetails \<Rightarrow> bool" where
  "needsScheduling env skipTimerScheduling t =
     (\<not> skipTimerScheduling \<and> isPlatformBrowser env \<and>
      (getLoadingBlockAfter t \<noteq> None \<or>
       getMinimumDurationForState t Loading \<noteq> None \<or>
       (case getMinimumDurationForState t Placeholder of None \<Rightarrow> False | Some d \<Rightarrow> d \<noteq> 0)))"

definition nextStateNum :: "DeferBlockState option \<Rightarrow> int" where
  "nextStateNum n = (case n of None \<Rightarrow> - 1 | Some s \<Rightarrow> stateNum s)"

definition templateErrorOf :: "DeferBlockState \<Rightarrow> World \<Rightarrow> RuntimeErr" where
  "templateErrorOf newState w =
     TemplateError (case getTemplateIndexForState newState (tDetails w) of None \<Rightarrow> 0 | Some i \<Rightarrow> i)"

definition renderDeferBlockState :: "Env \<Rightarrow> int \<Rightarrow> DeferBlockState \<Rightarrow> bool \<Rightarrow> World \<Rightarrow> World" where
  "renderDeferBlockState env now newState skipTimerScheduling w =
     (if destroyed w then w
      else
        let currentState = DEFER_BLOCK_STATE (lDetails w)
        in if isValidStateChange (storedNum currentState) (stateNum newState) \<and>
              isValidStateChange (nextStateNum (NEXT_DEFER_BLOCK_STATE (lDetails w))) (stateNum newState)
           then
             let (w', thrown) =
                   (if needsScheduling env skipTimerScheduling (tDetails w)
                    then applyDeferBlockStateWithScheduling env now newState w
                    else applyDeferBlockState env newState w)
             in if thrown then handleError (templateErrorOf newState w) w' else w'
           else w)"

text \<open>The callback \<open>scheduleDeferBlockUpdate\<close> hands to the timer.\<close>

definition deferBlockUpdateCallback :: "Env \<Rightarrow> int \<Rightarrow> World \<Rightarrow> World" where
  "deferBlockUpdateCallback env now w =
     (let nextState = NEXT_DEFER_BLOCK_STATE (lDetails w);
          w1 = w\<lparr>lDetails := (lDetails w)\<lparr>STATE_IS_FROZEN_UNTIL := None,
                                            NEXT_DEFER_BLOCK_STATE := None\<rparr>\<rparr>
      in case nextState of
           None \<Rightarrow> w1
         | Some s \<Rightarrow> renderDeferBlockState env now s False w1)"

text \<open>
  The host fires an armed timer, at the time its clock shows: the timer leaves the
  pending list and its callback runs. Firing a timer that is not pending does nothing.
\<close>

definition fireTimer :: "Env \<Rightarrow> int \<Rightarrow> nat \<Rightarrow> World \<Rightarrow> World" where
  "fireTimer env now i w =
     (if i \<in> fst ` set (timers w)
      then deferBlockUpdateCallback env now (w\<lparr>timers := filter (\<lambda>p. fst p \<noteq> i) (timers w)\<rparr>)
      else w)"

text \<open>What can happen to an instance, each at a time of the clock.\<close>

datatype Event = Render DeferBlockState bool | Fire nat

fun step :: "Env \<Rightarrow> World \<Rightarrow> int \<times> Event \<Rightarrow> World" where
  "step env w (now, Render newState skipTimerScheduling) =
     renderDeferBlockState env now newState skipTimerScheduling w"
| "step env w (now, Fire i) = fireTimer env now i w"

definition run :: "Env \<Rightarrow> (int \<times> Event) list \<Rightarrow> World \<Rightarrow> World" where
  "run env evs w = foldl (step env) w evs"

definition renderedState :: "World \<Rightarrow> StoredState" where
  "renderedState w = DEFER_BLOCK_STATE (lDetails w)"


subsection \<open>Trigger cleanup functions (\<open>defer/cleanup.ts\<close>)\<close>

datatype TriggerType = Regular | Prefetch

text \<open>
  Modelled from the spec: \<open>storeTriggerCleanupFn\<close>, \<open>invokeTriggerCleanupFns\<close> and
  \<open>invokeAllTriggerCleanupFns\<close> live in \<open>defer/cleanup.ts\<close>, which is not among the
  sources. The instance keeps one list of cleanup callbacks per trigger category; invoking
  a category runs its callbacks in registration order and empties it.
\<close>

definition storeTriggerCleanupFn :: "TriggerType \<Rightarrow> CleanupFn \<Rightarrow> World \<Rightarrow> World" where
  "storeTriggerCleanupFn type cleanupFn w =
     (case type of
        Prefetch \<Rightarrow>
          w\<lparr>lDetails := (lDetails w)\<lparr>PREFETCH_TRIGGER_CLEANUP_FNS :=
             Some ((case PREFETCH_TRIGGER_CLEANUP_FNS (lDetails w) of None \<Rightarrow> [] | Some fs \<Rightarrow> fs)
                   @ [cleanupFn])\<rparr>\<rparr>
      | Regular \<Rightarrow>
          w\<lparr>lDetails := (lDetails w)\<lparr>TRIGGER_CLEANUP_FNS :=
             Some ((case TRIGGER_CLEANUP_FNS (lDetails w) of None \<Rightarrow> [] | Some fs \<Rightarrow> fs)
                   @ [cleanupFn])\<rparr>\<rparr>)"

definition invokeTriggerCleanupFns :: "TriggerType \<Rightarrow> World \<Rightarrow> World" where
  "invokeTriggerCleanupFns type w =
     (case type of
        Prefetch \<Rightarrow>
          (case PREFETCH_TRIGGER_CLEANUP_FNS (lDetails w) of
             None \<Rightarrow> w
           | Some fs \<Rightarrow>
               let w' = foldl (\<lambda>v f. invokeCleanupFn f v) w fs
               in w'\<lparr>lDetails := (lDetails w')\<lparr>PREFETCH_TRIGGER_CLEANUP_FNS := None\<rparr>\<rparr>)
      | Regular \<Rightarrow>
          (case TRIGGER_CLEANUP_FNS (lDetails w) of
             None \<Rightarrow> w
           | Some fs \<Rightarrow>
               let w' = foldl (\<lambda>v f. invokeCleanupFn f v) w fs
               in w'\<lparr>lDetails := (lDetails w')\<lparr>TRIGGER_CLEANUP_FNS := None\<rparr>\<rparr>))"

definition invokeAllTriggerCleanupFns :: "World \<Rightarrow> World" where
  "invokeAllTriggerCleanupFns w = invokeTriggerCleanupFns Regular (invokeTriggerCleanupFns Prefetch w)"

subsection \<open>Loading the dependencies\<close>

definition shouldTriggerDeferBlock :: "Env \<Rightarrow> bool" where
  "shouldTriggerDeferBlock env = (if behaviorManual env then False else isPlatformBrowser env)"

text \<open>
  Modelled from the spec: \<open>getComponentDef\<close>, \<open>getDirectiveDef\<close> and \<open>getPipeDef\<close> live in
  \<open>render3/definition.ts\<close>, which is not among the sources. They inspect a loaded artifact
  for the capability it has: each returns the definition the type carries, or null.
\<close>

record DependencyType =
  componentDef :: "DefRef option"
  directiveDef :: "DefRef option"
  pipeDef :: "DefRef option"

datatype SettledResult = Fulfilled DependencyType | Rejected

text \<open>
  The \<open>for\<close> loop over the settled results, with \<open>failed\<close>, \<open>directiveDefs\<close> and
  \<open>pipeDefs\<close> as its variables: it leaves at the first rejected result.
\<close>

fun collectDefs ::
  "SettledResult list \<Rightarrow> DefRef list \<Rightarrow> DefRef list \<Rightarrow> bool \<times> DefRef list \<times> DefRef list" where
  "collectDefs [] directiveDefs pipeDefs = (False, directiveDefs, pipeDefs)"
| "collectDefs (Rejected # results) directiveDefs pipeDefs = (True, directiveDefs, pipeDefs)"
| "collectDefs (Fulfilled dependency # results) directiveDefs pipeDefs =
     (case (case componentDef dependency of Some d \<Rightarrow> Some d | None \<Rightarrow> directiveDef dependency) of
        Some d \<Rightarrow> collectDefs results (directiveDefs @ [d]) pipeDefs
      | None \<Rightarrow>
          (case pipeDef dependency of
             Some p \<Rightarrow> collectDefs results directiveDefs (pipeDefs @ [p])
           | None \<Rightarrow> collectDefs results directiveDefs pipeDefs))"

text \<open>
  Modelled from the spec: \<open>addDepsToRegistry\<close> lives in \<open>defer/utils.ts\<close>, which is not
  among the sources. It merges the new definitions into a registry by appending them.
\<close>

definition addDepsToRegistry :: "DefRef list option \<Rightarrow> DefRef list \<Rightarrow> DefRef list option" where
  "addDepsToRegistry currentDeps newDeps =
     (case currentDeps of None \<Rightarrow> Some newDeps | Some deps \<Rightarrow> Some (deps @ newDeps))"

text \<open>
  Modelled from the spec: \<open>PendingTasks\<close> lives in \<open>pending_tasks.ts\<close>, which is not among
  the sources. The tracker exposes \<open>add()\<close>, which returns the identifier of a new pending
  task, and \<open>remove(taskId)\<close>.
\<close>

definition pendingTasksAdd :: "World \<Rightarrow> nat \<times> World" where
  "pendingTasksAdd w =
     (taskSeq w, w\<lparr>pendingTasks := pendingTasks w @ [taskSeq w], taskSeq := Suc (taskSeq w)\<rparr>)"

definition pendingTasksRemove :: "nat \<Rightarrow> World \<Rightarrow> World" where
  "pendingTasksRemove taskId w = w\<lparr>pendingTasks := filter (\<lambda>i. i \<noteq> taskId) (pendingTasks w)\<rparr>"

text \<open>
  What a call of \<open>triggerResourceLoading\<close> returns: the promise stored in
  \<open>tDetails.loadingPromise\<close>, or a fresh promise that is already resolved.
\<close>

datatype LoadingResult = InFlight PromiseRef | AlreadyResolved

definition effectiveDependenciesFn :: "Env \<Rightarrow> TDeferBlockDetails \<Rightarrow> DependencyResolverFn option" where
  "effectiveDependenciesFn env t =
     (if ngDevMode env
      then (case interceptor env of
              Some intercept \<Rightarrow> intercept (dependencyResolverFn t)
            | None \<Rightarrow> dependencyResolverFn t)
      else dependencyResolverFn t)"

text \<open>
  The synchronous part of \<open>triggerResourceLoading\<close>. A resolver function returns its
  promises without throwing; the promise assigned to \<open>loadingPromise\<close> gets a fresh
  identity, and the continuation chained to it (\<open>loadingSettledNoDeps\<close> or
  \<open>loadingSettled\<close> below) is recorded in \<open>loadingThen\<close>.
\<close>

definition triggerResourceLoading :: "Env \<Rightarrow> World \<Rightarrow> LoadingResult \<times> World" where
  "triggerResourceLoading env w =
     (if loadingState (tDetails w) \<noteq> NOT_STARTED
      then (case loadingPromise (tDetails w) of
              Some p \<Rightarrow> (InFlight p, w)
            | None \<Rightarrow> (AlreadyResolved, w))
      else
        let w1 = w\<lparr>tDetails := (tDetails w)\<lparr>loadingState := IN_PROGRESS\<rparr>\<rparr>;
            w2 = invokeTriggerCleanupFns Prefetch w1;
            dependenciesFn = effectiveDependenciesFn env (tDetails w2);
            (taskId, w3) = pendingTasksAdd w2;
            p = promiseSeq w3
        in case dependenciesFn of
             None \<Rightarrow>
               (InFlight p,
                w3\<lparr>tDetails := (tDetails w3)\<lparr>loadingPromise := Some p\<rparr>,
                   promiseSeq := Suc p,
                   loadingThen := Some (ThenNoDeps taskId)\<rparr>)
           | Some fn \<Rightarrow>
               (InFlight p,
                w3\<lparr>resolverCalls := resolverCalls w3 @ [fn],
                   tDetails := (tDetails w3)\<lparr>loadingPromise := Some p\<rparr>,
                   promiseSeq := Suc p,
                   loadingThen := Some (ThenSettled taskId)\<rparr>))"

text \<open>
  The continuation of the loading promise when no resolver function exists:
  the callback of \<open>Promise.resolve().then\<close>.
\<close>

definition loadingSettledNoDeps :: "nat \<Rightarrow> World \<Rightarrow> World" where
  "loadingSettledNoDeps taskId w =
     pendingTasksRemove taskId
       (w\<lparr>tDetails := (tDetails w)\<lparr>loadingPromise := None, loadingState := COMPLETE\<rparr>\<rparr>)"

text \<open>
  The continuation of \<open>Promise.allSettled(dependenciesFn())\<close>, run with the settled
  results of the dependency promises.
\<close>

definition loadingSettled :: "Env \<Rightarrow> nat \<Rightarrow> SettledResult list \<Rightarrow> World \<Rightarrow> World" where
  "loadingSettled env taskId results w =
     (let (failed, directiveDefs, pipeDefs) = collectDefs results [] [];
          w1 = pendingTasksRemove taskId (w\<lparr>tDetails := (tDetails w)\<lparr>loadingPromise := None\<rparr>\<rparr>)
      in if failed
         then
           let w2 = w1\<lparr>tDetails := (tDetails w1)\<lparr>loadingState := FAILED\<rparr>\<rparr>
           in if errorTmplIndex (tDetails w2) = None
              then handleError DEFER_LOADING_FAILED w2
              else w2
         else
           let w2 = w1\<lparr>tDetails := (tDetails w1)\<lparr>loadingState := COMPLETE\<rparr>\<rparr>;
               w3 = (if directiveDefs \<noteq> []
                     then w2\<lparr>directiveRegistry := addDepsToRegistry (directiveRegistry w2) directiveDefs,
                             tDetails := (tDetails w2)
                               \<lparr>providers := Some (importProvidersFrom env directiveDefs)\<rparr>\<rparr>
                     else w2)
           in if pipeDefs \<noteq> []
              then w3\<lparr>pipeRegistry := addDepsToRegistry (pipeRegistry w3) pipeDefs\<rparr>
              else w3)"

definition renderPlaceholder :: "Env \<Rightarrow> int \<Rightarrow> World \<Rightarrow> World" where
  "renderPlaceholder env now w = renderDeferBlockState env now Placeholder False w"

text \<open>
  \<open>renderDeferStateAfterResourceLoading\<close> subscribes to the loading promise; the
  subscription is recorded, and \<open>afterResourceLoading\<close> is its callback.
\<close>

definition renderDeferStateAfterResourceLoading :: "World \<Rightarrow> World" where
  "renderDeferStateAfterResourceLoading w =
     (case loadingPromise (tDetails w) of
        Some p \<Rightarrow> w\<lparr>thenCallbacks := thenCallbacks w @ [p]\<rparr>
      | None \<Rightarrow> w)"

definition afterResourceLoading :: "Env \<Rightarrow> int \<Rightarrow> World \<Rightarrow> World" where
  "afterResourceLoading env now w =
     (if loadingState (tDetails w) = COMPLETE
      then renderDeferBlockState env now Complete False w
      else if loadingState (tDetails w) = FAILED
      then renderDeferBlockState env now Error False w
      else w)"

definition triggerDeferBlock :: "Env \<Rightarrow> int \<Rightarrow> World \<Rightarrow> World" where
  "triggerDeferBlock env now w =
     (if \<not> shouldTriggerDeferBlock env then w
      else
        let w1 = invokeAllTriggerCleanupFns w
        in case loadingState (tDetails w1) of
             NOT_STARTED \<Rightarrow>
               let w2 = renderDeferBlockState env now Loading False w1;
                   w3 = snd (triggerResourceLoading env w2)
               in if loadingState (tDetails w3) = IN_PROGRESS
                  then renderDeferStateAfterResourceLoading w3
                  else w3
           | IN_PROGRESS \<Rightarrow>
               renderDeferStateAfterResourceLoading (renderDeferBlockState env now Loading False w1)
           | COMPLETE \<Rightarrow> renderDeferBlockState env now Complete False w1
           | FAILED \<Rightarrow> renderDeferBlockState env now Error False w1)"

definition triggerPrefetching :: "Env \<Rightarrow> World \<Rightarrow> World" where
  "triggerPrefetching env w =
     (if shouldTriggerDeferBlock env then snd (triggerResourceLoading env w) else w)"

text \<open>
  The host settles the loading promise: the continuation chained by
  \<open>triggerResourceLoading\<close> runs (with the settled results of the dependency promises,
  if it reads them), then the callbacks subscribed to that promise by
  \<open>renderDeferStateAfterResourceLoading\<close>, in subscription order. Without a pending
  continuation nothing happens.
\<close>

definition settleLoading :: "Env \<Rightarrow> int \<Rightarrow> SettledResult list \<Rightarrow> World \<Rightarrow> World" where
  "settleLoading env now results w =
     (case (loadingThen w, loadingPromise (tDetails w)) of
        (Some k, Some p) \<Rightarrow>
          let w1 = (case k of
                      ThenNoDeps taskId \<Rightarrow> loadingSettledNoDeps taskId w
                    | ThenSettled taskId \<Rightarrow> loadingSettled env taskId results w);
              subscribed = filter (\<lambda>q. q = p) (thenCallbacks w1);
              w2 = w1\<lparr>loadingThen := None,
                      thenCallbacks := filter (\<lambda>q. q \<noteq> p) (thenCallbacks w1)\<rparr>
          in foldl (\<lambda>v q. afterResourceLoading env now v) w2 subscribed
      | _ \<Rightarrow> w)"

subsection \<open>The trigger instructions\<close>

text \<open>
  Modelled from the spec: \<open>bindingUpdated\<close> lives in \<open>render3/bindings.ts\<close>, which is not
  among the sources. It tells whether the bound value changed since the last pass and
  stores the new value; the slot is empty before the first pass.
\<close>

definition bindingUpdated :: "JSValue \<Rightarrow> World \<Rightarrow> bool \<times> World" where
  "bindingUpdated rawValue w =
     (if bindingSlot w = Some rawValue then (False, w)
      else (True, w\<lparr>bindingSlot := Some rawValue\<rparr>))"

fun Boolean :: "JSValue \<Rightarrow> bool" where
  "Boolean JSUndefined = False"
| "Boolean JSNull = False"
| "Boolean (JSBool b) = b"
| "Boolean (JSNumber n) = (n \<noteq> 0)"
| "Boolean (JSString s) = (s \<noteq> [])"

definition deferWhen :: "Env \<Rightarrow> int \<Rightarrow> JSValue \<Rightarrow> World \<Rightarrow> World" where
  "deferWhen env now rawValue w =
     (let (updated, w1) = bindingUpdated rawValue w
      in if updated
         then
           let val = Boolean rawValue;
               renderedState = DEFER_BLOCK_STATE (lDetails w1)
           in if val = False \<and> renderedState = Initial
              then renderPlaceholder env now w1
              else if val = True \<and> (renderedState = Initial \<or> renderedState = Rendered Placeholder)
              then triggerDeferBlock env now w1
              else w1
         else w1)"

text \<open>
  Modelled from the spec: \<open>onIdle\<close> and \<open>onTimer\<close> live in \<open>defer/idle_scheduler.ts\<close> and
  \<open>defer/timer_scheduler.ts\<close>, which are not among the sources. A scheduling function
  registers the callback with the scheduling primitive of the host and returns the
  function that cancels the registration.
\<close>

definition invokeScheduleFn :: "ScheduleFn \<Rightarrow> TriggerCallback \<Rightarrow> World \<Rightarrow> CleanupFn \<times> World" where
  "invokeScheduleFn scheduleFn callback w =
     (CancelHook (hookSeq w),
      w\<lparr>hooks := hooks w @ [(hookSeq w, scheduleFn, callback)], hookSeq := Suc (hookSeq w)\<rparr>)"

definition scheduleDelayedTrigger :: "Env \<Rightarrow> int \<Rightarrow> ScheduleFn \<Rightarrow> World \<Rightarrow> World" where
  "scheduleDelayedTrigger env now scheduleFn w =
     (let w1 = renderPlaceholder env now w
      in if isPlatformBrowser env
         then
           let (cleanupFn, w2) = invokeScheduleFn scheduleFn TriggerDeferBlock w1
           in storeTriggerCleanupFn Regular cleanupFn w2
         else w1)"

definition scheduleDelayedPrefetching :: "Env \<Rightarrow> ScheduleFn \<Rightarrow> World \<Rightarrow> World" where
  "scheduleDelayedPrefetching env scheduleFn w =
     (if isPlatformBrowser env
      then
        if loadingState (tDetails w) = NOT_STARTED
        then
          let (cleanupFn, w1) = invokeScheduleFn scheduleFn TriggerPrefetching w
          in storeTriggerCleanupFn Prefetch cleanupFn w1
        else w
      else w)"

definition deferOnIdle :: "Env \<Rightarrow> int \<Rightarrow> World \<Rightarrow> World" where
  "deferOnIdle env now w = scheduleDelayedTrigger env now OnIdle w"

definition deferPrefetchOnIdle :: "Env \<Rightarrow> World \<Rightarrow> World" where
  "deferPrefetchOnIdle env w = scheduleDelayedPrefetching env OnIdle w"

definition deferOnTimer :: "Env \<Rightarrow> int \<Rightarrow> int \<Rightarrow> World \<Rightarrow> World" where
  "deferOnTimer env now delay w = scheduleDelayedTrigger env now (OnTimer delay) w"

definition deferPrefetchOnTimer :: "Env \<Rightarrow> int \<Rightarrow> World \<Rightarrow> World" where
  "deferPrefetchOnTimer env delay w = scheduleDelayedPrefetching env (OnTimer delay) w"

text \<open>
  The data structures the \<open>defer\<close> instruction creates on the first pass: the static
  details from its arguments (with the configurations \<open>deferEnableTimerScheduling\<close>
  reads from the constants), the details of the instance, and an empty container.
\<close>

definition deferTDetails ::
  "nat \<Rightarrow> DependencyResolverFn option \<Rightarrow> nat option \<Rightarrow> nat option \<Rightarrow> nat option \<Rightarrow>
   DeferredLoadingBlockConfig option \<Rightarrow> DeferredPlaceholderBlockConfig option \<Rightarrow> TDeferBlockDetails" where
  "deferTDetails primaryIdx resolverFn loadingIdx placeholderIdx errorIdx loadingConfig placeholderConfig =
     \<lparr>primaryTmplIndex = primaryIdx,
      loadingTmplIndex = loadingIdx,
      placeholderTmplIndex = placeholderIdx,
      errorTmplIndex = errorIdx,
      placeholderBlockConfig = placeholderConfig,
      loadingBlockConfig = loadingConfig,
      dependencyResolverFn = resolverFn,
      loadingState = NOT_STARTED,
      loadingPromise = None,
      providers = None\<rparr>"

definition deferLDetails :: LDeferBlockDetails where
  "deferLDetails =
     \<lparr>NEXT_DEFER_BLOCK_STATE = None,
      DEFER_BLOCK_STATE = Initial,
      STATE_IS_FROZEN_UNTIL = None,
      LOADING_AFTER_CLEANUP_FN = None,
      TRIGGER_CLEANUP_FNS = Some [RemoveLViewOnDestroy],
      PREFETCH_TRIGGER_CLEANUP_FNS = None\<rparr>"

definition deferWorld :: "TDeferBlockDetails \<Rightarrow> World" where
  "deferWorld t =
     \<lparr>tDetails = t,
      lDetails = deferLDetails,
      lContainer = [],
      destroyed = False,
      timers = [],
      timerSeq = 0,
      hooks = [],
      hookSeq = 0,
      lViewOnDestroy = True,
      handledErrors = [],
      pendingTasks = [],
      taskSeq = 0,
      promiseSeq = 0,
      loadingThen = None,
      thenCallbacks = [],
      resolverCalls = [],
      directiveRegistry = None,
      pipeRegistry = None,
      bindingSlot = None\<rparr>"

subsection \<open>Runs of a block\<close>

text \<open>
  What can happen to a block and its instance, each at a time of the clock: a call of
  \<open>triggerResourceLoading\<close>, the settling of its promise, a call of \<open>triggerDeferBlock\<close>
  or \<open>triggerPrefetching\<close> (from a trigger or from a scheduling hook), a call of
  \<open>renderDeferBlockState\<close>, a timer firing, and a pass over the \<open>when\<close> binding.
\<close>

datatype LoadEvent =
    Trigger
  | Settle "SettledResult list"
  | TriggerBlock
  | TriggerPrefetch
  | RenderState DeferBlockState bool
  | TimerFires nat
  | When JSValue

fun loadStep :: "Env \<Rightarrow> World \<Rightarrow> int \<times> LoadEvent \<Rightarrow> World" where
  "loadStep env w (now, Trigger) = snd (triggerResourceLoading env w)"
| "loadStep env w (now, Settle results) = settleLoading env now results w"
| "loadStep env w (now, TriggerBlock) = triggerDeferBlock env now w"
| "loadStep env w (now, TriggerPrefetch) = triggerPrefetching env w"
| "loadStep env w (now, RenderState newState skipTimerScheduling) =
     renderDeferBlockState env now newState skipTimerScheduling w"
| "loadStep env w (now, TimerFires i) = fireTimer env now i w"
| "loadStep env w (now, When rawValue) = deferWhen env now rawValue w"

definition runLoad :: "Env \<Rightarrow> (int \<times> LoadEvent) list \<Rightarrow> World \<Rightarrow> World" where
  "runLoad env evs w = foldl (loadStep env) w evs"

section \<open>The trigger parser (packages/compiler/src/render3/r3_deferred_triggers.ts)\<close>

subsection \<open>Time values\<close>

text \<open>The character class \<open>\d\<close> of a JavaScript regular expression: the ASCII digits.\<close>

definition isDigit :: "char \<Rightarrow> bool" where
  "isDigit c = (48 \<le> (of_char c :: nat) \<and> (of_char c :: nat) \<le> 57)"

definition digitValue :: "char \<Rightarrow> nat" where
  "digitValue c = of_char c - 48"

definition decimalValue :: "string \<Rightarrow> nat" where
  "decimalValue ds = foldl (\<lambda>n c. 10 * n + digitValue c) 0 ds"

text \<open>
  \<open>v.match(TIME_PATTERN)\<close> for \<open>TIME_PATTERN = /^\d+\.?\d*(ms|s)?$/\<close>. The pattern is
  anchored at both ends and its parts accept disjoint characters, so the match is found
  by scanning: the digits, an optional dot, the digits after it, and then nothing, \<open>ms\<close>
  or \<open>s\<close>. The result is the match array: the whole match and the \<open>units\<close> group
  (undefined when the group did not take part).
\<close>

definition matchTimePattern :: "string \<Rightarrow> (string \<times> string option) option" where
  "matchTimePattern v =
     (let rest1 = dropWhile isDigit v;
          rest2 = (case rest1 of [] \<Rightarrow> rest1 | c # cs \<Rightarrow> if c = CHR ''.'' then cs else rest1);
          rest3 = dropWhile isDigit rest2
      in if takeWhile isDigit v = [] then None
         else if rest3 = [] then Some (v, None)
         else if rest3 = ''ms'' then Some (v, Some ''ms'')
         else if rest3 = ''s'' then Some (v, Some ''s'')
         else None)"

text \<open>
  \<open>parseFloat\<close> on a string that starts with a digit and holds no sign and no exponent,
  which is all \<open>TIME_PATTERN\<close> lets through: the decimal literal at the start of the
  string, read up to the first character that cannot continue it. A JavaScript number is
  an IEEE double; the model keeps the exact rational the literal denotes, which is the
  double itself for every integer literal below \<open>2^53\<close>.
\<close>

definition parseFloat :: "string \<Rightarrow> rat" where
  "parseFloat v =
     (let intDigits = takeWhile isDigit v;
          rest = dropWhile isDigit v;
          fracDigits = (case rest of [] \<Rightarrow> []
                        | c # cs \<Rightarrow> if c = CHR ''.'' then takeWhile isDigit cs else [])
      in of_nat (decimalValue intDigits) + of_nat (decimalValue fracDigits) / 10 ^ length fracDigits)"

text \<open>
  \<open>parseDeferredTime\<close>: the destructuring \<open>[time, units] = match\<close> binds \<open>time\<close> to the
  whole match (suffix included) and \<open>units\<close> to the group.
\<close>

definition parseDeferredTime :: "string \<Rightarrow> rat option" where
  "parseDeferredTime v =
     (case matchTimePattern v of
        None \<Rightarrow> None
      | Some (time, units) \<Rightarrow> Some (parseFloat time * (if units = Some ''s'' then 1000 else 1)))"

subsection \<open>Trigger descriptors\<close>

datatype OnTriggerType = IDLE | TIMER | INTERACTION | IMMEDIATE | HOVER | VIEWPORT

fun triggerTypeName :: "OnTriggerType \<Rightarrow> string" where
  "triggerTypeName IDLE = ''idle''"
| "triggerTypeName TIMER = ''timer''"
| "triggerTypeName INTERACTION = ''interaction''"
| "triggerTypeName IMMEDIATE = ''immediate''"
| "triggerTypeName HOVER = ''hover''"
| "triggerTypeName VIEWPORT = ''viewport''"

text \<open>
  Modelled from the spec: the render3 AST lives in \<open>r3_ast.ts\<close>, which is not among the
  sources. Its nodes are kept as far as \<open>instanceof t.Element\<close> tells them apart; a
  placeholder block has its child nodes and its minimum time.
\<close>

datatype R3Node = Element string | Text string | BoundText string | Template string | Content string

fun isElement :: "R3Node \<Rightarrow> bool" where
  "isElement (Element name) = True"
| "isElement other = False"

record DeferredBlockPlaceholder =
  children :: "R3Node list"
  minimumTime :: "rat option"

text \<open>
  The trigger descriptors. The source spans every constructor takes (\<open>nameSpan\<close>,
  \<open>sourceSpan\<close>, \<open>prefetchSpan\<close>, \<open>onSourceSpan\<close>) are passed through unchanged and are
  left out.
\<close>

datatype DeferredTrigger =
    IdleDeferredTrigger
  | TimerDeferredTrigger rat
  | ImmediateDeferredTrigger
  | HoverDeferredTrigger "string option"
  | InteractionDeferredTrigger "string option"
  | ViewportDeferredTrigger "string option"
  | BoundDeferredTrigger string

text \<open>The template literal \<open>"${type}"\<close>: the name between double quotes.\<close>

definition quoted :: "string \<Rightarrow> string" where
  "quoted name = CHR 0x22 # name @ [CHR 0x22]"

text \<open>
  A thrown \<open>Error\<close> is the left summand, with its message. The test
  \<open>children.length !== 1 || !(children[0] instanceof t.Element)\<close> is the match on a
  one-element list.
\<close>

definition validateReferenceBasedTrigger ::
  "OnTriggerType \<Rightarrow> string list \<Rightarrow> DeferredBlockPlaceholder option \<Rightarrow> string + unit" where
  "validateReferenceBasedTrigger type parameters placeholder =
     (if length parameters > 1
      then Inl (quoted (triggerTypeName type) @ '' trigger can only have zero or one parameters'')
      else if length parameters = 0
      then (case placeholder of
              None \<Rightarrow>
                Inl (quoted (triggerTypeName type) @
                     '' trigger with no parameters can only be placed on an @defer that has a @placeholder block'')
            | Some p \<Rightarrow>
                (case children p of
                   [c] \<Rightarrow>
                     if isElement c then Inr ()
                     else Inl (quoted (triggerTypeName type) @
                               '' trigger with no parameters can only be placed on an @defer that has a '' @
                               ''@placeholder block with exactly one root element node'')
                 | _ \<Rightarrow>
                     Inl (quoted (triggerTypeName type) @
                          '' trigger with no parameters can only be placed on an @defer that has a '' @
                          ''@placeholder block with exactly one root element node'')))
      else Inr ())"

text \<open>\<open>parameters[0] ?? null\<close>\<close>

definition firstParameter :: "string list \<Rightarrow> string option" where
  "firstParameter parameters = (case parameters of [] \<Rightarrow> None | p # ps \<Rightarrow> Some p)"

definition createIdleTrigger :: "string list \<Rightarrow> string + DeferredTrigger" where
  "createIdleTrigger parameters =
     (if length parameters > 0
      then Inl (quoted (triggerTypeName IDLE) @ '' trigger cannot have parameters'')
      else Inr IdleDeferredTrigger)"

definition createTimerTrigger :: "string list \<Rightarrow> string + DeferredTrigger" where
  "createTimerTrigger parameters =
     (case parameters of
        [p] \<Rightarrow>
          (case parseDeferredTime p of
             None \<Rightarrow> Inl (''Could not parse time value of trigger '' @ quoted (triggerTypeName TIMER))
           | Some delay \<Rightarrow> Inr (TimerDeferredTrigger delay))
      | _ \<Rightarrow> Inl (quoted (triggerTypeName TIMER) @ '' trigger must have exactly one parameter''))"

definition createImmediateTrigger :: "string list \<Rightarrow> string + DeferredTrigger" where
  "createImmediateTrigger parameters =
     (if length parameters > 0
      then Inl (quoted (triggerTypeName IMMEDIATE) @ '' trigger cannot have parameters'')
      else Inr ImmediateDeferredTrigger)"

definition createHoverTrigger ::
  "string list \<Rightarrow> DeferredBlockPlaceholder option \<Rightarrow> string + DeferredTrigger" where
  "createHoverTrigger parameters placeholder =
     (case validateReferenceBasedTrigger HOVER parameters placeholder of
        Inl message \<Rightarrow> Inl message
      | Inr u \<Rightarrow> Inr (HoverDeferredTrigger (firstParameter parameters)))"

definition createInteractionTrigger ::
  "string list \<Rightarrow> DeferredBlockPlaceholder option \<Rightarrow> string + DeferredTrigger" where
  "createInteractionTrigger parameters placeholder =
     (case validateReferenceBasedTrigger INTERACTION parameters placeholder of
        Inl message \<Rightarrow> Inl message
      | Inr u \<Rightarrow> Inr (InteractionDeferredTrigger (firstParameter parameters)))"

definition createViewportTrigger ::
  "string list \<Rightarrow> DeferredBlockPlaceholder option \<Rightarrow> string + DeferredTrigger" where
  "createViewportTrigger parameters placeholder =
     (case validateReferenceBasedTrigger VIEWPORT parameters placeholder of
        Inl message \<Rightarrow> Inl message
      | Inr u \<Rightarrow> Inr (ViewportDeferredTrigger (firstParameter parameters)))"

text \<open>
  The triggers of a block, keyed by name, and the parse errors collected so far (each by
  its message; the span of the offending token is left out).
\<close>

type_synonym DeferredBlockTriggers = "string \<rightharpoonup> DeferredTrigger"

definition trackTrigger ::
  "string \<Rightarrow> DeferredTrigger \<Rightarrow> DeferredBlockTriggers \<times> string list \<Rightarrow>
   DeferredBlockTriggers \<times> string list" where
  "trackTrigger name trigger st =
     (case st of (allTriggers, errors) \<Rightarrow>
        if allTriggers name \<noteq> None
        then (allTriggers, errors @ [''Duplicate '' @ quoted name @ '' trigger is not allowed''])
        else (allTriggers(name \<mapsto> trigger), errors))"

text \<open>
  \<open>OnTriggerParser.consumeTrigger\<close>: the \<open>switch\<close> over the identifier inside \<open>try\<close>, and
  the \<open>catch\<close> that turns a thrown \<open>Error\<close> into a parse error with its message.
\<close>

definition consumeTrigger ::
  "string \<Rightarrow> string list \<Rightarrow> DeferredBlockPlaceholder option \<Rightarrow>
   DeferredBlockTriggers \<times> string list \<Rightarrow> DeferredBlockTriggers \<times> string list" where
  "consumeTrigger identifier parameters placeholder st =
     (let attempt =
           (if identifier = triggerTypeName IDLE
            then map_sum id (Pair ''idle'') (createIdleTrigger parameters)
            else if identifier = triggerTypeName TIMER
            then map_sum id (Pair ''timer'') (createTimerTrigger parameters)
            else if identifier = triggerTypeName INTERACTION
            then map_sum id (Pair ''interaction'') (createInteractionTrigger parameters placeholder)
            else if identifier = triggerTypeName IMMEDIATE
            then map_sum id (Pair ''immediate'') (createImmediateTrigger parameters)
            else if identifier = triggerTypeName HOVER
            then map_sum id (Pair ''hover'') (createHoverTrigger parameters placeholder)
            else if identifier = triggerTypeName VIEWPORT
            then map_sum id (Pair ''viewport'') (createViewportTrigger parameters placeholder)
            else Inl (''Unrecognized trigger type '' @ quoted identifier))
      in case attempt of
           Inl message \<Rightarrow> (fst st, snd st @ [message])
         | Inr (name, trigger) \<Rightarrow> trackTrigger name trigger st)"

section \<open>Projections and invariants used in the proofs\<close>

text \<open>
  The part of the world that belongs to the loading of dependencies and to the bindings;
  rendering a state never writes it.
\<close>

definition loadingPart ::
  "World \<Rightarrow> TDeferBlockDetails \<times> nat list \<times> nat \<times> nat \<times> LoadingThen option \<times> PromiseRef list \<times>
     DependencyResolverFn list \<times> DefRef list option \<times> DefRef list option \<times> JSValue option" where
  "loadingPart w =
     (tDetails w, pendingTasks w, taskSeq w, promiseSeq w, loadingThen w, thenCallbacks w,
      resolverCalls w, directiveRegistry w, pipeRegistry w, bindingSlot w)"

text \<open>
  What holds of the loading state of a block whatever happens to it: the resolver
  function stays the one given to the \<open>defer\<close> instruction, it has been invoked at most
  once and not at all before loading started, the first promise created (number 0) is
  stored while loading is in progress, and none afterwards.
\<close>

definition loadInv :: "DependencyResolverFn option \<Rightarrow> World \<Rightarrow> bool" where
  "loadInv rf w =
     (dependencyResolverFn (tDetails w) = rf \<and>
      length (resolverCalls w) \<le> 1 \<and>
      (case loadingState (tDetails w) of
         NOT_STARTED \<Rightarrow> resolverCalls w = [] \<and> promiseSeq w = 0
       | IN_PROGRESS \<Rightarrow> loadingPromise (tDetails w) = Some 0 \<and> loadingThen w \<noteq> None
       | COMPLETE \<Rightarrow> loadingPromise (tDetails w) = None
       | FAILED \<Rightarrow> loadingPromise (tDetails w) = None))"

text \<open>The instance is not frozen at a time: no minimum duration is still running.\<close>

definition notFrozen :: "int \<Rightarrow> World \<Rightarrow> bool" where
  "notFrozen now w =
     (case STATE_IS_FROZEN_UNTIL (lDetails w) of None \<Rightarrow> True | Some until \<Rightarrow> until \<le> now)"









definition singleRootElement :: "DeferredBlockPlaceholder option \<Rightarrow> bool" where
  "singleRootElement placeholder = (\<exists>p name. placeholder = Some p \<and> children p = [Element name])"

definition tooManyParameters :: "OnTriggerType \<Rightarrow> string" where
  "tooManyParameters type = quoted (triggerTypeName type) @ '' trigger can only have zero or one parameters''"

section \<open>Example blocks\<close>

text \<open>Concrete platforms and blocks, used to evaluate the instructions.\<close>

definition browserEnv :: Env where
  "browserEnv =
     \<lparr>isPlatformBrowser = True, behaviorManual = False, renderThrows = (\<lambda>i. False),
      ngDevMode = False, interceptor = None, importProvidersFrom = (\<lambda>ds. [])\<rparr>"

definition serverEnv :: Env where
  "serverEnv = browserEnv\<lparr>isPlatformBrowser := False\<rparr>"

text \<open>
  The browser in dev mode, without a dependency interceptor and with one that replaces
  every resolver function by the function 9.
\<close>

definition devEnv :: Env where
  "devEnv = browserEnv\<lparr>ngDevMode := True\<rparr>"

definition interceptedEnv :: Env where
  "interceptedEnv = browserEnv\<lparr>ngDevMode := True, interceptor := Some (\<lambda>fn. Some 9)\<rparr>"

text \<open>
  A block with a primary template at slot 1, loading at 2, placeholder at 3, error at 4,
  resolver function 7 and no timing configuration; and one without loading and error
  blocks.
\<close>

definition plainBlock :: TDeferBlockDetails where
  "plainBlock = deferTDetails 1 (Some 7) (Some 2) (Some 3) (Some 4) None None"

definition noLoadingBlock :: TDeferBlockDetails where
  "noLoadingBlock = deferTDetails 1 (Some 7) None (Some 3) None None None"

text \<open>Two loaded dependencies: a component and a pipe.\<close>

definition componentDep :: DependencyType where
  "componentDep = \<lparr>componentDef = Some 11, directiveDef = None, pipeDef = None\<rparr>"

definition pipeDep :: DependencyType where
  "pipeDep = \<lparr>componentDef = None, directiveDef = None, pipeDef = Some 12\<rparr>"

text \<open>Two placeholder blocks: one with a single root element, one with a text node.\<close>

definition buttonPlaceholder :: DeferredBlockPlaceholder where
  "buttonPlaceholder = \<lparr>children = [Element ''button''], minimumTime = None\<rparr>"

definition textPlaceholder :: DeferredBlockPlaceholder where
  "textPlaceholder = \<lparr>children = [Text ''wait''], minimumTime = None\<rparr>"





section \<open>Properties of the state transition engine\<close>

lemmas engine_defs =
  renderDeferBlockState_def applyDeferBlockState_def applyDeferBlockStateWithScheduling_def
  scheduleLoadingAfter_def stopLoadingAfter_def freezeForMinimum_def applyUnscheduled_def
  scheduleDeferBlockUpdate_def scheduleTimerTrigger_def needsScheduling_def
  getLoadingBlockAfter_def isValidStateChange_def nextStateNum_def handleError_def
  templateErrorOf_def removeLViewFromLContainer_def addLViewToLContainer_def
  deferBlockUpdateCallback_def fireTimer_def renderedState_def run_def

lemmas example_defs =
  browserEnv_def serverEnv_def plainBlock_def noLoadingBlock_def
  deferTDetails_def deferLDetails_def deferWorld_def

lemma invokeCleanupFn_lDetails [simp]: "lDetails (invokeCleanupFn c w) = lDetails w"
  by (cases c) simp_all

lemma invokeCleanupFn_tDetails [simp]: "tDetails (invokeCleanupFn c w) = tDetails w"
  by (cases c) simp_all

lemma invokeCleanupFn_lContainer [simp]: "lContainer (invokeCleanupFn c w) = lContainer w"
  by (cases c) simp_all

lemma invokeCleanupFn_destroyed [simp]: "destroyed (invokeCleanupFn c w) = destroyed w"
  by (cases c) simp_all

lemma applyDeferBlockState_no_template:
  "getTemplateIndexForState newState (tDetails w) = None \<Longrightarrow>
   applyDeferBlockState env newState w = (w, False)"
  by (simp add: applyDeferBlockState_def)

lemma applyDeferBlockState_rendered:
  "renderedState (fst (applyDeferBlockState env s w)) =
     (if getTemplateIndexForState s (tDetails w) = None then renderedState w else Rendered s)"
  by (simp add: applyDeferBlockState_def renderedState_def Let_def split: option.splits)

lemma scheduleLoadingAfter_rendered [simp]:
  "renderedState (scheduleLoadingAfter a now s w) = renderedState w"
  by (simp add: scheduleLoadingAfter_def scheduleDeferBlockUpdate_def scheduleTimerTrigger_def
      renderedState_def)

lemma stopLoadingAfter_rendered [simp]:
  "renderedState (stopLoadingAfter s w) = renderedState w"
  by (simp add: stopLoadingAfter_def renderedState_def Let_def split: option.splits)

lemma stopLoadingAfter_tDetails [simp]:
  "tDetails (stopLoadingAfter s w) = tDetails w"
  by (simp add: stopLoadingAfter_def Let_def split: option.splits)

lemma freezeForMinimum_rendered [simp]:
  "renderedState (freezeForMinimum now s w) = renderedState w"
  by (simp add: freezeForMinimum_def scheduleDeferBlockUpdate_def scheduleTimerTrigger_def
      renderedState_def split: option.splits)

lemma applyUnscheduled_rendered:
  "renderedState (fst (applyUnscheduled env now s w)) =
     (if getTemplateIndexForState s (tDetails w) = None then renderedState w else Rendered s)"
  using applyDeferBlockState_rendered [of env s "stopLoadingAfter s w"]
  by (simp add: applyUnscheduled_def split_beta)

lemma applyWithScheduling_rendered:
  "renderedState (fst (applyDeferBlockStateWithScheduling env now s w)) = renderedState w \<or>
   renderedState (fst (applyDeferBlockStateWithScheduling env now s w)) = Rendered s"
proof -
  let ?w1 = "w\<lparr>lDetails := (lDetails w)\<lparr>STATE_IS_FROZEN_UNTIL := None\<rparr>\<rparr>"
  have r: "renderedState ?w1 = renderedState w" by (simp add: renderedState_def)
  have t: "tDetails ?w1 = tDetails w" by simp
  have n: "renderedState (w\<lparr>lDetails := (lDetails w)\<lparr>NEXT_DEFER_BLOCK_STATE := Some s\<rparr>\<rparr>)
             = renderedState w"
    by (simp add: renderedState_def)
  from applyUnscheduled_rendered [of env now s ?w1] r t
  have u: "renderedState (fst (applyUnscheduled env now s ?w1)) = renderedState w \<or>
           renderedState (fst (applyUnscheduled env now s ?w1)) = Rendered s"
    by (simp split: if_splits)
  show ?thesis
    unfolding applyDeferBlockStateWithScheduling_def Let_def
    using u r n by (simp split: option.splits)
qed

lemma render_invalid:
  "destroyed w \<or> \<not> (storedNum (renderedState w) < stateNum s \<and>
     nextStateNum (NEXT_DEFER_BLOCK_STATE (lDetails w)) < stateNum s) \<Longrightarrow>
   renderDeferBlockState env now s skip w = w"
  by (auto simp add: renderDeferBlockState_def isValidStateChange_def renderedState_def Let_def)

lemma render_rendered:
  "renderedState (renderDeferBlockState env now s skip w) = renderedState w \<or>
   (renderedState (renderDeferBlockState env now s skip w) = Rendered s \<and>
    storedNum (renderedState w) < stateNum s \<and>
    nextStateNum (NEXT_DEFER_BLOCK_STATE (lDetails w)) < stateNum s \<and> \<not> destroyed w)"
proof (cases "destroyed w \<or> \<not> (storedNum (renderedState w) < stateNum s \<and>
    nextStateNum (NEXT_DEFER_BLOCK_STATE (lDetails w)) < stateNum s)")
  case True
  then show ?thesis by (simp add: render_invalid)
next
  case False
  then show ?thesis
    using applyWithScheduling_rendered [of env now s w] applyDeferBlockState_rendered [of env s w]
    by (auto simp add: renderDeferBlockState_def isValidStateChange_def renderedState_def
        Let_def handleError_def split: prod.splits if_splits)
qed

lemma render_monotone:
  "storedNum (renderedState w) \<le> storedNum (renderedState (renderDeferBlockState env now s skip w))"
  using render_rendered [of env now s skip w] by auto

lemma callback_monotone:
  "storedNum (renderedState w) \<le> storedNum (renderedState (deferBlockUpdateCallback env now w))"
proof (cases "NEXT_DEFER_BLOCK_STATE (lDetails w)")
  case None
  then show ?thesis by (simp add: deferBlockUpdateCallback_def renderedState_def)
next
  case (Some s)
  let ?w1 = "w\<lparr>lDetails := (lDetails w)\<lparr>STATE_IS_FROZEN_UNTIL := None,
                                            NEXT_DEFER_BLOCK_STATE := None\<rparr>\<rparr>"
  have "renderedState ?w1 = renderedState w" by (simp add: renderedState_def)
  with render_monotone [of ?w1 env now s False] Some show ?thesis
    by (simp add: deferBlockUpdateCallback_def Let_def)
qed

lemma fireTimer_monotone:
  "storedNum (renderedState w) \<le> storedNum (renderedState (fireTimer env now i w))"
proof (cases "i \<in> fst ` set (timers w)")
  case True
  let ?w1 = "w\<lparr>timers := filter (\<lambda>p. fst p \<noteq> i) (timers w)\<rparr>"
  have "renderedState ?w1 = renderedState w" by (simp add: renderedState_def)
  with callback_monotone [of ?w1 env now] True show ?thesis by (simp add: fireTimer_def)
next
  case False
  then show ?thesis by (simp add: fireTimer_def)
qed

lemma step_monotone:
  "storedNum (renderedState w) \<le> storedNum (renderedState (step env w ev))"
proof (cases ev)
  case (Pair now e)
  then show ?thesis
    by (cases e) (simp_all add: render_monotone fireTimer_monotone)
qed

lemma run_monotone:
  "storedNum (renderedState w) \<le> storedNum (renderedState (run env evs w))"
proof (induction evs arbitrary: w)
  case Nil
  then show ?case by (simp add: run_def)
next
  case (Cons ev evs)
  have "storedNum (renderedState w) \<le> storedNum (renderedState (step env w ev))"
    by (rule step_monotone)
  also have "\<dots> \<le> storedNum (renderedState (run env evs (step env w ev)))"
    by (rule Cons.IH)
  finally show ?case by (simp add: run_def)
qed

lemma run_append: "run env (evs @ evs') w = run env evs' (run env evs w)"
  by (simp add: run_def)

text \<open>
  Claim C1. Over every sequence of calls of \<open>renderDeferBlockState\<close> (and of the timer
  callbacks they arm), the rendered state of an instance never decreases in the order
  Initial, Placeholder, Loading, Complete, Error. A call changes the rendered state only
  to the requested state, and only if that state is strictly greater than the rendered
  state and than the buffered next state; a request that is not strictly greater than
  both is a no-op that leaves everything unchanged.
\<close>

theorem C1_rendered_state_non_decreasing:
  "storedNum (renderedState (run env evs w))
     \<le> storedNum (renderedState (run env (evs @ evs') w)) \<and>
   (renderedState (renderDeferBlockState env now s skip w) \<noteq> renderedState w \<longrightarrow>
      renderedState (renderDeferBlockState env now s skip w) = Rendered s \<and>
      storedNum (renderedState w) < stateNum s \<and>
      (\<forall>n. NEXT_DEFER_BLOCK_STATE (lDetails w) = Some n \<longrightarrow> stateNum n < stateNum s)) \<and>
   (\<not> (storedNum (renderedState w) < stateNum s \<and>
       nextStateNum (NEXT_DEFER_BLOCK_STATE (lDetails w)) < stateNum s) \<longrightarrow>
      renderDeferBlockState env now s skip w = w)"
proof (intro conjI impI)
  show "storedNum (renderedState (run env evs w))
          \<le> storedNum (renderedState (run env (evs @ evs') w))"
    by (simp add: run_append run_monotone)
next
  assume "renderedState (renderDeferBlockState env now s skip w) \<noteq> renderedState w"
  with render_rendered [of env now s skip w]
  have a: "renderedState (renderDeferBlockState env now s skip w) = Rendered s"
    and b: "storedNum (renderedState w) < stateNum s"
    and c: "nextStateNum (NEXT_DEFER_BLOCK_STATE (lDetails w)) < stateNum s"
    by auto
  show "renderedState (renderDeferBlockState env now s skip w) = Rendered s" by (rule a)
  show "storedNum (renderedState w) < stateNum s" by (rule b)
  show "\<forall>n. NEXT_DEFER_BLOCK_STATE (lDetails w) = Some n \<longrightarrow> stateNum n < stateNum s"
    using c by (auto simp add: nextStateNum_def)
next
  assume "\<not> (storedNum (renderedState w) < stateNum s \<and>
       nextStateNum (NEXT_DEFER_BLOCK_STATE (lDetails w)) < stateNum s)"
  then show "renderDeferBlockState env now s skip w = w" by (simp add: render_invalid)
qed

theorem C1_rendered_state_non_decreasing_witness:
  "renderedState (renderDeferBlockState browserEnv 0 Loading False (deferWorld plainBlock))
     \<noteq> renderedState (deferWorld plainBlock) \<and>
   renderedState (renderDeferBlockState browserEnv 0 Loading False (deferWorld plainBlock))
     = Rendered Loading \<and>
   storedNum (renderedState (deferWorld plainBlock)) < stateNum Loading \<and>
   \<not> (storedNum (renderedState (renderDeferBlockState browserEnv 0 Loading False (deferWorld plainBlock)))
        < stateNum Placeholder \<and>
      nextStateNum (NEXT_DEFER_BLOCK_STATE (lDetails
        (renderDeferBlockState browserEnv 0 Loading False (deferWorld plainBlock))))
        < stateNum Placeholder) \<and>
   renderDeferBlockState browserEnv 4 Placeholder False
       (renderDeferBlockState browserEnv 0 Loading False (deferWorld plainBlock))
     = renderDeferBlockState browserEnv 0 Loading False (deferWorld plainBlock) \<and>
   storedNum (renderedState (run browserEnv [(0, Render Loading False)] (deferWorld plainBlock)))
     \<le> storedNum (renderedState (run browserEnv
           ([(0, Render Loading False)] @ [(4, Render Placeholder False), (5, Render Complete False)])
           (deferWorld plainBlock)))"
proof -
  let ?w0 = "deferWorld plainBlock"
  let ?w1 = "renderDeferBlockState browserEnv 0 Loading False ?w0"
  have changed: "renderedState ?w1 \<noteq> renderedState ?w0"
    by (simp add: engine_defs example_defs)
  have invalid: "\<not> (storedNum (renderedState ?w1) < stateNum Placeholder \<and>
      nextStateNum (NEXT_DEFER_BLOCK_STATE (lDetails ?w1)) < stateNum Placeholder)"
    by (simp add: engine_defs example_defs)
  from changed invalid
    C1_rendered_state_non_decreasing
      [of browserEnv "[(0, Render Loading False)]" ?w0
          "[(4, Render Placeholder False), (5, Render Complete False)]" 0 Loading False]
    C1_rendered_state_non_decreasing
      [of browserEnv "[]" ?w1 "[]" 4 Placeholder False]
  show ?thesis by simp
qed

lemma stateNum_le_3: "stateNum s \<le> 3"
  by (cases s) simp_all

lemma error_render_noop:
  "renderedState w = Rendered Error \<Longrightarrow> renderDeferBlockState env now s skip w = w"
  using stateNum_le_3 [of s] by (intro render_invalid) simp

lemma complete_render_noop:
  "renderedState w = Rendered Complete \<Longrightarrow> s \<noteq> Error \<Longrightarrow>
   renderDeferBlockState env now s skip w = w"
  by (intro render_invalid, cases s) simp_all

lemma error_callback:
  assumes "renderedState w = Rendered Error"
  shows "renderedState (deferBlockUpdateCallback env now w) = Rendered Error \<and>
         lContainer (deferBlockUpdateCallback env now w) = lContainer w"
proof -
  let ?w1 = "w\<lparr>lDetails := (lDetails w)\<lparr>STATE_IS_FROZEN_UNTIL := None,
                                            NEXT_DEFER_BLOCK_STATE := None\<rparr>\<rparr>"
  have r: "renderedState ?w1 = Rendered Error" using assms by (simp add: renderedState_def)
  have "deferBlockUpdateCallback env now w = ?w1"
    using error_render_noop [OF r]
    by (simp add: deferBlockUpdateCallback_def Let_def split: option.splits)
  with r show ?thesis by simp
qed

lemma error_fireTimer:
  assumes "renderedState w = Rendered Error"
  shows "renderedState (fireTimer env now i w) = Rendered Error \<and>
         lContainer (fireTimer env now i w) = lContainer w"
proof (cases "i \<in> fst ` set (timers w)")
  case True
  let ?w1 = "w\<lparr>timers := filter (\<lambda>p. fst p \<noteq> i) (timers w)\<rparr>"
  have "renderedState ?w1 = Rendered Error" using assms by (simp add: renderedState_def)
  from error_callback [OF this, of env now] True show ?thesis by (simp add: fireTimer_def)
next
  case False
  with assms show ?thesis by (simp add: fireTimer_def)
qed

lemma error_step:
  assumes "renderedState w = Rendered Error"
  shows "renderedState (step env w ev) = Rendered Error \<and> lContainer (step env w ev) = lContainer w"
proof (cases ev)
  case (Pair now e)
  with assms show ?thesis
    by (cases e) (simp_all add: error_render_noop error_fireTimer)
qed

lemma error_run:
  "renderedState w = Rendered Error \<Longrightarrow>
   renderedState (run env evs w) = Rendered Error \<and> lContainer (run env evs w) = lContainer w"
proof (induction evs arbitrary: w)
  case Nil
  then show ?case by (simp add: run_def)
next
  case (Cons ev evs)
  from error_step [OF Cons.prems, of env ev]
  have s: "renderedState (step env w ev) = Rendered Error"
    and c: "lContainer (step env w ev) = lContainer w" by simp_all
  from Cons.IH [OF s] c show ?case by (simp add: run_def)
qed

lemma storedNum_ge_2:
  "2 \<le> storedNum x \<Longrightarrow> x = Rendered Complete \<or> x = Rendered Error"
proof (cases x)
  case Initial
  assume "2 \<le> storedNum x"
  with Initial show ?thesis by simp
next
  case (Rendered s)
  assume "2 \<le> storedNum x"
  with Rendered show ?thesis by (cases s) simp_all
qed

text \<open>
  Claim C2, as the code has it. The claim says that neither terminal state can be
  superseded. The engine compares numbers only, and Complete (2) is less than Error (3):
  after Complete has been applied, a request for Error is accepted and mounts the error
  view.
\<close>

theorem C2_complete_then_error_counterexample:
  "renderedState (renderDeferBlockState browserEnv 0 Complete False (deferWorld plainBlock))
     = Rendered Complete \<and>
   lContainer (renderDeferBlockState browserEnv 0 Complete False (deferWorld plainBlock)) = [1] \<and>
   renderedState (renderDeferBlockState browserEnv 5 Error False
      (renderDeferBlockState browserEnv 0 Complete False (deferWorld plainBlock)))
     = Rendered Error \<and>
   lContainer (renderDeferBlockState browserEnv 5 Error False
      (renderDeferBlockState browserEnv 0 Complete False (deferWorld plainBlock))) = [4]"
  by (simp add: engine_defs example_defs)

text \<open>
  Claim C2, amended. Error is terminal: once the rendered state is Error, no later
  request and no timer changes the rendered state or the mounted view. Once the rendered
  state is Complete, it can only stay Complete or become Error, and every request for
  Placeholder, Loading or Complete is a no-op.
\<close>

theorem C2_error_terminal_complete_yields_to_error_only:
  "(renderedState w = Rendered Error \<longrightarrow>
      renderedState (run env evs w) = Rendered Error \<and> lContainer (run env evs w) = lContainer w) \<and>
   (renderedState w = Rendered Complete \<longrightarrow>
      (renderedState (run env evs w) = Rendered Complete \<or>
       renderedState (run env evs w) = Rendered Error)) \<and>
   (renderedState w = Rendered Complete \<and> s \<noteq> Error \<longrightarrow>
      renderDeferBlockState env now s skip w = w)"
proof -
  have a: "renderedState w = Rendered Error \<Longrightarrow>
      renderedState (run env evs w) = Rendered Error \<and> lContainer (run env evs w) = lContainer w"
    by (rule error_run)
  have b: "renderedState (run env evs w) = Rendered Complete \<or>
       renderedState (run env evs w) = Rendered Error" if "renderedState w = Rendered Complete"
  proof -
    from that run_monotone [of w env evs]
    have "2 \<le> storedNum (renderedState (run env evs w))" by simp
    then show ?thesis by (rule storedNum_ge_2)
  qed
  have c: "renderedState w = Rendered Complete \<and> s \<noteq> Error \<Longrightarrow>
      renderDeferBlockState env now s skip w = w"
    by (simp add: complete_render_noop)
  from a b c show ?thesis by blast
qed

theorem C2_error_terminal_complete_yields_to_error_only_witness:
  "renderedState (renderDeferBlockState browserEnv 0 Error False (deferWorld plainBlock))
     = Rendered Error \<and>
   renderedState (run browserEnv [(1, Render Complete False), (2, Render Loading True)]
      (renderDeferBlockState browserEnv 0 Error False (deferWorld plainBlock))) = Rendered Error \<and>
   lContainer (run browserEnv [(1, Render Complete False), (2, Render Loading True)]
      (renderDeferBlockState browserEnv 0 Error False (deferWorld plainBlock))) = [4] \<and>
   renderedState (renderDeferBlockState browserEnv 0 Complete False (deferWorld plainBlock))
     = Rendered Complete \<and>
   renderDeferBlockState browserEnv 3 Loading False
       (renderDeferBlockState browserEnv 0 Complete False (deferWorld plainBlock))
     = renderDeferBlockState browserEnv 0 Complete False (deferWorld plainBlock)"
proof -
  let ?we = "renderDeferBlockState browserEnv 0 Error False (deferWorld plainBlock)"
  let ?wc = "renderDeferBlockState browserEnv 0 Complete False (deferWorld plainBlock)"
  have e: "renderedState ?we = Rendered Error" by (simp add: engine_defs example_defs)
  have ce: "lContainer ?we = [4]" by (simp add: engine_defs example_defs)
  have c: "renderedState ?wc = Rendered Complete" by (simp add: engine_defs example_defs)
  from e ce c
    C2_error_terminal_complete_yields_to_error_only
      [of ?we browserEnv "[(1, Render Complete False), (2, Render Loading True)]" Loading 0 False]
    C2_error_terminal_complete_yields_to_error_only
      [of ?wc browserEnv "[]" Loading 3 False]
  show ?thesis by simp
qed

text \<open>
  Claim C10. When the requested state has no sub-template configured
  (\<open>getTemplateIndexForState\<close> returns null), \<open>applyDeferBlockState\<close> changes nothing: the
  stored \<open>DEFER_BLOCK_STATE\<close> keeps its value and the container keeps its views.
\<close>

theorem C10_missing_template_changes_nothing:
  "getTemplateIndexForState newState (tDetails w) = None \<Longrightarrow>
   applyDeferBlockState env newState w = (w, False) \<and>
   DEFER_BLOCK_STATE (lDetails (fst (applyDeferBlockState env newState w)))
     = DEFER_BLOCK_STATE (lDetails w) \<and>
   lContainer (fst (applyDeferBlockState env newState w)) = lContainer w"
  by (simp add: applyDeferBlockState_no_template)

theorem C10_missing_template_changes_nothing_witness:
  "getTemplateIndexForState Loading (tDetails (deferWorld noLoadingBlock)) = None \<and>
   applyDeferBlockState browserEnv Loading (deferWorld noLoadingBlock)
     = (deferWorld noLoadingBlock, False) \<and>
   DEFER_BLOCK_STATE (lDetails (fst (applyDeferBlockState browserEnv Loading (deferWorld noLoadingBlock))))
     = Initial \<and>
   lContainer (fst (applyDeferBlockState browserEnv Loading (deferWorld noLoadingBlock))) = []"
proof -
  have h: "getTemplateIndexForState Loading (tDetails (deferWorld noLoadingBlock)) = None"
    by (simp add: noLoadingBlock_def deferWorld_def deferTDetails_def)
  from C10_missing_template_changes_nothing [OF h, of browserEnv] h show ?thesis
    by (simp add: deferWorld_def deferLDetails_def)
qed

section \<open>Properties of the dependency loader\<close>

lemma invokeCleanupFn_frame [simp]:
  "resolverCalls (invokeCleanupFn c w) = resolverCalls w"
  "loadingThen (invokeCleanupFn c w) = loadingThen w"
  "promiseSeq (invokeCleanupFn c w) = promiseSeq w"
  "taskSeq (invokeCleanupFn c w) = taskSeq w"
  "pendingTasks (invokeCleanupFn c w) = pendingTasks w"
  "thenCallbacks (invokeCleanupFn c w) = thenCallbacks w"
  "handledErrors (invokeCleanupFn c w) = handledErrors w"
  "hookSeq (invokeCleanupFn c w) = hookSeq w"
  "timerSeq (invokeCleanupFn c w) = timerSeq w"
  by (cases c; simp)+

lemma foldl_invokeCleanupFn_frame [simp]:
  "tDetails (foldl (\<lambda>v f. invokeCleanupFn f v) w fs) = tDetails w"
  "lDetails (foldl (\<lambda>v f. invokeCleanupFn f v) w fs) = lDetails w"
  "lContainer (foldl (\<lambda>v f. invokeCleanupFn f v) w fs) = lContainer w"
  "destroyed (foldl (\<lambda>v f. invokeCleanupFn f v) w fs) = destroyed w"
  "resolverCalls (foldl (\<lambda>v f. invokeCleanupFn f v) w fs) = resolverCalls w"
  "loadingThen (foldl (\<lambda>v f. invokeCleanupFn f v) w fs) = loadingThen w"
  "promiseSeq (foldl (\<lambda>v f. invokeCleanupFn f v) w fs) = promiseSeq w"
  "taskSeq (foldl (\<lambda>v f. invokeCleanupFn f v) w fs) = taskSeq w"
  "pendingTasks (foldl (\<lambda>v f. invokeCleanupFn f v) w fs) = pendingTasks w"
  "thenCallbacks (foldl (\<lambda>v f. invokeCleanupFn f v) w fs) = thenCallbacks w"
  "handledErrors (foldl (\<lambda>v f. invokeCleanupFn f v) w fs) = handledErrors w"
  "hookSeq (foldl (\<lambda>v f. invokeCleanupFn f v) w fs) = hookSeq w"
  "timerSeq (foldl (\<lambda>v f. invokeCleanupFn f v) w fs) = timerSeq w"
  by (induction fs arbitrary: w) simp_all

lemma invokeTriggerCleanupFns_frame [simp]:
  "tDetails (invokeTriggerCleanupFns ty w) = tDetails w"
  "lContainer (invokeTriggerCleanupFns ty w) = lContainer w"
  "destroyed (invokeTriggerCleanupFns ty w) = destroyed w"
  "resolverCalls (invokeTriggerCleanupFns ty w) = resolverCalls w"
  "loadingThen (invokeTriggerCleanupFns ty w) = loadingThen w"
  "promiseSeq (invokeTriggerCleanupFns ty w) = promiseSeq w"
  "taskSeq (invokeTriggerCleanupFns ty w) = taskSeq w"
  "pendingTasks (invokeTriggerCleanupFns ty w) = pendingTasks w"
  "thenCallbacks (invokeTriggerCleanupFns ty w) = thenCallbacks w"
  "handledErrors (invokeTriggerCleanupFns ty w) = handledErrors w"
  "hookSeq (invokeTriggerCleanupFns ty w) = hookSeq w"
  "timerSeq (invokeTriggerCleanupFns ty w) = timerSeq w"
  by (simp_all add: invokeTriggerCleanupFns_def Let_def split: TriggerType.splits option.splits)

lemma invokeTriggerCleanupFns_lDetails [simp]:
  "NEXT_DEFER_BLOCK_STATE (lDetails (invokeTriggerCleanupFns ty w)) = NEXT_DEFER_BLOCK_STATE (lDetails w)"
  "DEFER_BLOCK_STATE (lDetails (invokeTriggerCleanupFns ty w)) = DEFER_BLOCK_STATE (lDetails w)"
  "STATE_IS_FROZEN_UNTIL (lDetails (invokeTriggerCleanupFns ty w)) = STATE_IS_FROZEN_UNTIL (lDetails w)"
  "LOADING_AFTER_CLEANUP_FN (lDetails (invokeTriggerCleanupFns ty w)) = LOADING_AFTER_CLEANUP_FN (lDetails w)"
  by (simp_all add: invokeTriggerCleanupFns_def Let_def split: TriggerType.splits option.splits)

lemma invokeCleanupFn_loadingPart [simp]: "loadingPart (invokeCleanupFn c w) = loadingPart w"
  by (cases c) (simp_all add: loadingPart_def)

lemma loadingPart_lDetails_update [simp]: "loadingPart (w\<lparr>lDetails := l\<rparr>) = loadingPart w"
  by (simp add: loadingPart_def)

lemma loadingPart_lContainer_update [simp]: "loadingPart (w\<lparr>lContainer := c\<rparr>) = loadingPart w"
  by (simp add: loadingPart_def)

lemma loadingPart_timers_update [simp]: "loadingPart (w\<lparr>timers := t\<rparr>) = loadingPart w"
  by (simp add: loadingPart_def)

lemma loadingPart_timerSeq_update [simp]: "loadingPart (w\<lparr>timerSeq := t\<rparr>) = loadingPart w"
  by (simp add: loadingPart_def)

lemma loadingPart_handledErrors_update [simp]: "loadingPart (w\<lparr>handledErrors := t\<rparr>) = loadingPart w"
  by (simp add: loadingPart_def)

lemma scheduleDeferBlockUpdate_loadingPart [simp]:
  "loadingPart (snd (scheduleDeferBlockUpdate t now w)) = loadingPart w"
  by (simp add: scheduleDeferBlockUpdate_def scheduleTimerTrigger_def)

lemma applyDeferBlockState_loadingPart [simp]:
  "loadingPart (fst (applyDeferBlockState env s w)) = loadingPart w"
  by (simp add: applyDeferBlockState_def Let_def split: option.splits)

lemma scheduleLoadingAfter_loadingPart [simp]:
  "loadingPart (scheduleLoadingAfter a now s w) = loadingPart w"
  by (simp add: scheduleLoadingAfter_def scheduleDeferBlockUpdate_def scheduleTimerTrigger_def)

lemma stopLoadingAfter_loadingPart [simp]:
  "loadingPart (stopLoadingAfter s w) = loadingPart w"
  by (simp add: stopLoadingAfter_def Let_def split: option.splits)

lemma freezeForMinimum_loadingPart [simp]:
  "loadingPart (freezeForMinimum now s w) = loadingPart w"
  by (simp add: freezeForMinimum_def split: option.splits)

lemma applyUnscheduled_loadingPart [simp]:
  "loadingPart (fst (applyUnscheduled env now s w)) = loadingPart w"
  by (simp add: applyUnscheduled_def split_beta)

lemma applyWithScheduling_loadingPart [simp]:
  "loadingPart (fst (applyDeferBlockStateWithScheduling env now s w)) = loadingPart w"
  by (simp add: applyDeferBlockStateWithScheduling_def Let_def split: option.splits)

lemma render_loadingPart [simp]:
  "loadingPart (renderDeferBlockState env now s skip w) = loadingPart w"
  by (simp add: renderDeferBlockState_def Let_def split_beta handleError_def)

lemma loadingPart_fields:
  assumes "loadingPart w' = loadingPart w"
  shows "tDetails w' = tDetails w" "pendingTasks w' = pendingTasks w" "taskSeq w' = taskSeq w"
    "promiseSeq w' = promiseSeq w" "loadingThen w' = loadingThen w"
    "thenCallbacks w' = thenCallbacks w" "resolverCalls w' = resolverCalls w"
    "directiveRegistry w' = directiveRegistry w" "pipeRegistry w' = pipeRegistry w"
    "bindingSlot w' = bindingSlot w"
  using assms by (simp_all add: loadingPart_def)

lemmas render_frame = loadingPart_fields [OF render_loadingPart]

lemma afterResourceLoading_loadingPart [simp]:
  "loadingPart (afterResourceLoading env now w) = loadingPart w"
  by (simp add: afterResourceLoading_def)

lemma foldl_afterResourceLoading_loadingPart [simp]:
  "loadingPart (foldl (\<lambda>v q. afterResourceLoading env now v) w qs) = loadingPart w"
  by (induction qs arbitrary: w) simp_all

lemmas foldl_afterResourceLoading_frame = loadingPart_fields [OF foldl_afterResourceLoading_loadingPart]

lemma effectiveDependenciesFn_loadingState [simp]:
  "effectiveDependenciesFn env (t\<lparr>loadingState := x\<rparr>) = effectiveDependenciesFn env t"
  by (simp add: effectiveDependenciesFn_def split: option.splits)

lemma collectDefs_failed:
  "fst (collectDefs results ds ps) = (Rejected \<in> set results)"
  by (induction results ds ps rule: collectDefs.induct) (auto split: option.splits)

lemma collectDefs_cases:
  obtains ds ps where "collectDefs results [] [] = (Rejected \<in> set results, ds, ps)"
  using collectDefs_failed [of results "[]" "[]"]
  by (cases "collectDefs results [] []") auto

text \<open>
  Claim C4. When the dependency promises have settled and one of them was rejected, the
  load fails as a whole: \<open>loadingState\<close> becomes FAILED, the registries and the
  providers stay as they were, and if no error template is configured
  (\<open>errorTmplIndex\<close> is null) a \<open>DEFER_LOADING_FAILED\<close> runtime error goes to
  \<open>handleError\<close>. When every promise was fulfilled, \<open>loadingState\<close> becomes COMPLETE
  and no error is reported.
\<close>

theorem C4_any_rejection_fails_the_load:
  "(Rejected \<in> set results \<longrightarrow>
      loadingState (tDetails (loadingSettled env taskId results w)) = FAILED \<and>
      directiveRegistry (loadingSettled env taskId results w) = directiveRegistry w \<and>
      pipeRegistry (loadingSettled env taskId results w) = pipeRegistry w \<and>
      providers (tDetails (loadingSettled env taskId results w)) = providers (tDetails w) \<and>
      handledErrors (loadingSettled env taskId results w) =
        (if errorTmplIndex (tDetails w) = None
         then handledErrors w @ [DEFER_LOADING_FAILED] else handledErrors w)) \<and>
   (Rejected \<notin> set results \<longrightarrow>
      loadingState (tDetails (loadingSettled env taskId results w)) = COMPLETE \<and>
      handledErrors (loadingSettled env taskId results w) = handledErrors w)"
proof -
  obtain ds ps where c: "collectDefs results [] [] = (Rejected \<in> set results, ds, ps)"
    by (rule collectDefs_cases)
  show ?thesis
    by (simp add: loadingSettled_def c pendingTasksRemove_def handleError_def Let_def)
qed

lemma trigger_started:
  "loadingState (tDetails w) \<noteq> NOT_STARTED \<Longrightarrow>
   triggerResourceLoading env w =
     (case loadingPromise (tDetails w) of Some p \<Rightarrow> InFlight p | None \<Rightarrow> AlreadyResolved, w)"
  by (simp add: triggerResourceLoading_def split: option.splits)

lemma trigger_first:
  assumes "loadingState (tDetails w) = NOT_STARTED"
  shows "loadingState (tDetails (snd (triggerResourceLoading env w))) = IN_PROGRESS"
    and "resolverCalls (snd (triggerResourceLoading env w)) =
           resolverCalls w @ (case effectiveDependenciesFn env (tDetails w) of None \<Rightarrow> [] | Some fn \<Rightarrow> [fn])"
    and "fst (triggerResourceLoading env w) = InFlight (promiseSeq w)"
    and "loadingPromise (tDetails (snd (triggerResourceLoading env w))) = Some (promiseSeq w)"
    and "loadingThen (snd (triggerResourceLoading env w)) \<noteq> None"
    and "dependencyResolverFn (tDetails (snd (triggerResourceLoading env w))) = dependencyResolverFn (tDetails w)"
    and "promiseSeq (snd (triggerResourceLoading env w)) = Suc (promiseSeq w)"
  using assms
  by (simp_all add: triggerResourceLoading_def Let_def pendingTasksAdd_def
      split: option.splits prod.splits)


lemma loadingSettled_frame:
  "resolverCalls (loadingSettled env taskId results w) = resolverCalls w \<and>
   dependencyResolverFn (tDetails (loadingSettled env taskId results w)) = dependencyResolverFn (tDetails w) \<and>
   loadingPromise (tDetails (loadingSettled env taskId results w)) = None \<and>
   (loadingState (tDetails (loadingSettled env taskId results w)) = COMPLETE \<or>
    loadingState (tDetails (loadingSettled env taskId results w)) = FAILED)"
  by (simp add: loadingSettled_def pendingTasksRemove_def handleError_def Let_def split: prod.splits)

lemma loadingSettledNoDeps_frame:
  "resolverCalls (loadingSettledNoDeps taskId w) = resolverCalls w \<and>
   dependencyResolverFn (tDetails (loadingSettledNoDeps taskId w)) = dependencyResolverFn (tDetails w) \<and>
   loadingPromise (tDetails (loadingSettledNoDeps taskId w)) = None \<and>
   loadingState (tDetails (loadingSettledNoDeps taskId w)) = COMPLETE"
  by (simp add: loadingSettledNoDeps_def pendingTasksRemove_def)

lemma settleLoading_frame:
  "resolverCalls (settleLoading env now results w) = resolverCalls w \<and>
   dependencyResolverFn (tDetails (settleLoading env now results w)) = dependencyResolverFn (tDetails w) \<and>
   (settleLoading env now results w = w \<or>
    (loadingPromise (tDetails (settleLoading env now results w)) = None \<and>
     (loadingState (tDetails (settleLoading env now results w)) = COMPLETE \<or>
      loadingState (tDetails (settleLoading env now results w)) = FAILED)))"
proof (cases "loadingThen w")
  case None
  then show ?thesis by (simp add: settleLoading_def)
next
  case (Some k)
  show ?thesis
  proof (cases "loadingPromise (tDetails w)")
    case None
    with Some show ?thesis by (simp add: settleLoading_def)
  next
    case (Some p)
    with \<open>loadingThen w = Some k\<close> show ?thesis
      using loadingSettled_frame [of env _ results w] loadingSettledNoDeps_frame [of _ w]
      by (cases k)
        (auto simp add: settleLoading_def Let_def foldl_afterResourceLoading_frame)
  qed
qed

lemma loadInv_trigger:
  assumes "loadInv rf w"
  shows "loadInv rf (snd (triggerResourceLoading env w))"
proof (cases "loadingState (tDetails w) = NOT_STARTED")
  case True
  with assms have "resolverCalls w = []" and "dependencyResolverFn (tDetails w) = rf"
    and "promiseSeq w = 0"
    by (simp_all add: loadInv_def)
  with trigger_first [OF True, of env] show ?thesis
    by (simp add: loadInv_def split: option.splits)
next
  case False
  with assms show ?thesis by (simp add: trigger_started)
qed

lemma loadInv_settle:
  assumes "loadInv rf w"
  shows "loadInv rf (settleLoading env now results w)"
proof (cases "settleLoading env now results w = w")
  case True
  with assms show ?thesis by simp
next
  case False
  let ?w' = "settleLoading env now results w"
  from False settleLoading_frame [of env now results w]
  have "resolverCalls ?w' = resolverCalls w"
    and "dependencyResolverFn (tDetails ?w') = dependencyResolverFn (tDetails w)"
    and "loadingPromise (tDetails ?w') = None"
    and "loadingState (tDetails ?w') = COMPLETE \<or> loadingState (tDetails ?w') = FAILED"
    by simp_all
  with assms show ?thesis
    by (auto simp add: loadInv_def)
qed

lemma loadInv_loadingPart:
  assumes "loadingPart w' = loadingPart w"
  shows "loadInv rf w' = loadInv rf w"
  using loadingPart_fields [OF assms]
  by (simp add: loadInv_def split: DeferDependenciesLoadingState.splits)

lemma loadInv_binding [simp]: "loadInv rf (w\<lparr>bindingSlot := b\<rparr>) = loadInv rf w"
  by (simp add: loadInv_def split: DeferDependenciesLoadingState.splits)

lemma loadInv_subscribe:
  "loadInv rf (renderDeferStateAfterResourceLoading w) = loadInv rf w"
  by (simp add: renderDeferStateAfterResourceLoading_def loadInv_def
      split: option.splits DeferDependenciesLoadingState.splits)

lemma foldl_invokeCleanupFn_loadingPart [simp]:
  "loadingPart (foldl (\<lambda>v f. invokeCleanupFn f v) w fs) = loadingPart w"
  by (induction fs arbitrary: w) simp_all

lemma invokeTriggerCleanupFns_loadingPart [simp]:
  "loadingPart (invokeTriggerCleanupFns ty w) = loadingPart w"
  by (simp add: invokeTriggerCleanupFns_def Let_def split: TriggerType.splits option.splits)

lemma invokeAll_loadingPart [simp]:
  "loadingPart (invokeAllTriggerCleanupFns w) = loadingPart w"
  by (simp add: invokeAllTriggerCleanupFns_def)

lemma invokeAll_tDetails [simp]:
  "tDetails (invokeAllTriggerCleanupFns w) = tDetails w"
  by (rule loadingPart_fields [OF invokeAll_loadingPart])

lemma deferBlockUpdateCallback_loadingPart [simp]:
  "loadingPart (deferBlockUpdateCallback env now w) = loadingPart w"
  by (simp add: deferBlockUpdateCallback_def Let_def split: option.splits)

lemma fireTimer_loadingPart [simp]:
  "loadingPart (fireTimer env now i w) = loadingPart w"
  by (simp add: fireTimer_def)

lemma loadInv_render:
  "loadInv rf (renderDeferBlockState env now s skip w) = loadInv rf w"
  by (rule loadInv_loadingPart) simp

lemma loadInv_triggerDeferBlock:
  assumes "loadInv rf w"
  shows "loadInv rf (triggerDeferBlock env now w)"
proof (cases "shouldTriggerDeferBlock env")
  case False
  with assms show ?thesis by (simp add: triggerDeferBlock_def)
next
  case True
  let ?w1 = "invokeAllTriggerCleanupFns w"
  have r: "loadInv rf (renderDeferBlockState env now s False ?w1)" for s
    using assms by (simp add: loadInv_render loadInv_loadingPart [of ?w1 w])
  show ?thesis
  proof (cases "loadingState (tDetails w)")
    case NOT_STARTED
    let ?w3 = "snd (triggerResourceLoading env (renderDeferBlockState env now Loading False ?w1))"
    have "loadInv rf ?w3" by (intro loadInv_trigger r)
    then have "loadInv rf (if loadingState (tDetails ?w3) = IN_PROGRESS
        then renderDeferStateAfterResourceLoading ?w3 else ?w3)"
      by (simp add: loadInv_subscribe)
    with True NOT_STARTED show ?thesis by (simp add: triggerDeferBlock_def Let_def)
  next
    case IN_PROGRESS
    with True r [of Loading] show ?thesis
      by (simp add: triggerDeferBlock_def Let_def loadInv_subscribe)
  next
    case COMPLETE
    with True r [of Complete] show ?thesis by (simp add: triggerDeferBlock_def Let_def)
  next
    case FAILED
    with True r [of Error] show ?thesis by (simp add: triggerDeferBlock_def Let_def)
  qed
qed

lemma loadInv_triggerPrefetching:
  "loadInv rf w \<Longrightarrow> loadInv rf (triggerPrefetching env w)"
  by (simp add: triggerPrefetching_def loadInv_trigger)

lemma loadInv_deferWhen:
  assumes "loadInv rf w"
  shows "loadInv rf (deferWhen env now rawValue w)"
proof -
  let ?w1 = "w\<lparr>bindingSlot := Some rawValue\<rparr>"
  have "loadInv rf ?w1" using assms by simp
  then have "loadInv rf (renderPlaceholder env now ?w1)" "loadInv rf (triggerDeferBlock env now ?w1)"
    by (simp_all add: renderPlaceholder_def loadInv_render loadInv_triggerDeferBlock)
  with assms show ?thesis
    by (simp add: deferWhen_def bindingUpdated_def Let_def)
qed

lemma loadInv_step: "loadInv rf w \<Longrightarrow> loadInv rf (loadStep env w ev)"
proof (cases ev)
  case (Pair now e)
  assume "loadInv rf w"
  with Pair show ?thesis
    by (cases e)
      (simp_all add: loadInv_trigger loadInv_settle loadInv_triggerDeferBlock
        loadInv_triggerPrefetching loadInv_render loadInv_deferWhen
        loadInv_loadingPart [OF fireTimer_loadingPart])
qed

lemma loadInv_run: "loadInv rf w \<Longrightarrow> loadInv rf (runLoad env evs w)"
  unfolding runLoad_def
  by (induction evs arbitrary: w) (simp_all add: loadInv_step)

lemma loadInv_deferWorld:
  "loadInv rf (deferWorld (deferTDetails pidx rf lidx phidx eidx lcfg pcfg))"
  by (simp add: loadInv_def deferWorld_def deferTDetails_def)

text \<open>
  Claim C3. For a block created by the \<open>defer\<close> instruction, after any sequence of
  events (calls of \<open>triggerResourceLoading\<close>, \<open>triggerDeferBlock\<close>,
  \<open>triggerPrefetching\<close>, \<open>renderDeferBlockState\<close> and \<open>deferWhen\<close>, timers firing, the
  loading promise settling): the resolver function has been invoked at most once. A call
  of \<open>triggerResourceLoading\<close> in state NOT_STARTED moves to IN_PROGRESS and invokes the
  block's resolver function, if it has one (in dev mode with a dependency interceptor:
  the function the interceptor returns for it); it returns the promise it stored, the
  first one created (number 0), and an immediate second call returns that same promise
  and changes nothing. A call while IN_PROGRESS returns that same stored promise and
  changes nothing; a call after completion (COMPLETE or FAILED) returns an already
  resolved promise and changes nothing.
\<close>

theorem C3_triggerResourceLoading_idempotent:
  assumes "w = runLoad env evs (deferWorld (deferTDetails pidx rf lidx phidx eidx lcfg pcfg))"
  shows "length (resolverCalls w) \<le> 1 \<and>
    (loadingState (tDetails w) = NOT_STARTED \<longrightarrow>
       resolverCalls w = [] \<and>
       loadingState (tDetails (snd (triggerResourceLoading env w))) = IN_PROGRESS \<and>
       (\<not> ngDevMode env \<or> interceptor env = None \<longrightarrow>
          resolverCalls (snd (triggerResourceLoading env w)) =
            (case rf of None \<Rightarrow> [] | Some fn \<Rightarrow> [fn])) \<and>
       (\<forall>intercept. ngDevMode env \<and> interceptor env = Some intercept \<longrightarrow>
          resolverCalls (snd (triggerResourceLoading env w)) =
            (case intercept rf of None \<Rightarrow> [] | Some fn \<Rightarrow> [fn])) \<and>
       fst (triggerResourceLoading env w) = InFlight 0 \<and>
       loadingPromise (tDetails (snd (triggerResourceLoading env w))) = Some 0 \<and>
       triggerResourceLoading env (snd (triggerResourceLoading env w)) =
         (InFlight 0, snd (triggerResourceLoading env w))) \<and>
    (loadingState (tDetails w) = IN_PROGRESS \<longrightarrow>
       loadingPromise (tDetails w) = Some 0 \<and> triggerResourceLoading env w = (InFlight 0, w)) \<and>
    (loadingState (tDetails w) = COMPLETE \<or> loadingState (tDetails w) = FAILED \<longrightarrow>
       triggerResourceLoading env w = (AlreadyResolved, w))"
proof -
  have inv: "loadInv rf w"
    unfolding assms by (intro loadInv_run loadInv_deferWorld)
  have a: "length (resolverCalls w) \<le> 1" using inv by (simp add: loadInv_def)
  have b: "resolverCalls w = [] \<and>
       loadingState (tDetails (snd (triggerResourceLoading env w))) = IN_PROGRESS \<and>
       (\<not> ngDevMode env \<or> interceptor env = None \<longrightarrow>
          resolverCalls (snd (triggerResourceLoading env w)) =
            (case rf of None \<Rightarrow> [] | Some fn \<Rightarrow> [fn])) \<and>
       (\<forall>intercept. ngDevMode env \<and> interceptor env = Some intercept \<longrightarrow>
          resolverCalls (snd (triggerResourceLoading env w)) =
            (case intercept rf of None \<Rightarrow> [] | Some fn \<Rightarrow> [fn])) \<and>
       fst (triggerResourceLoading env w) = InFlight 0 \<and>
       loadingPromise (tDetails (snd (triggerResourceLoading env w))) = Some 0 \<and>
       triggerResourceLoading env (snd (triggerResourceLoading env w)) =
         (InFlight 0, snd (triggerResourceLoading env w))"
    if ns: "loadingState (tDetails w) = NOT_STARTED"
  proof -
    from inv ns have e: "resolverCalls w = []" and r: "dependencyResolverFn (tDetails w) = rf"
      and z: "promiseSeq w = 0"
      by (simp_all add: loadInv_def)
    let ?w' = "snd (triggerResourceLoading env w)"
    from trigger_first [OF ns, of env] z
    have s: "loadingState (tDetails ?w') = IN_PROGRESS"
      and p: "loadingPromise (tDetails ?w') = Some 0"
      and f: "fst (triggerResourceLoading env w) = InFlight 0"
      and c: "resolverCalls ?w' = resolverCalls w @
           (case effectiveDependenciesFn env (tDetails w) of None \<Rightarrow> [] | Some fn \<Rightarrow> [fn])"
      by simp_all
    from s p have again: "triggerResourceLoading env ?w' = (InFlight 0, ?w')"
      by (simp add: trigger_started)
    have c1: "resolverCalls ?w' = (case rf of None \<Rightarrow> [] | Some fn \<Rightarrow> [fn])"
      if "\<not> ngDevMode env \<or> interceptor env = None"
      using that c e r by (auto simp add: effectiveDependenciesFn_def)
    have c2: "resolverCalls ?w' = (case intercept rf of None \<Rightarrow> [] | Some fn \<Rightarrow> [fn])"
      if "ngDevMode env \<and> interceptor env = Some intercept" for intercept
      using that c e r by (simp add: effectiveDependenciesFn_def)
    from e s c1 c2 f p again show ?thesis by blast
  qed
  have c: "loadingPromise (tDetails w) = Some 0 \<and> triggerResourceLoading env w = (InFlight 0, w)"
    if "loadingState (tDetails w) = IN_PROGRESS"
    using inv that by (auto simp add: loadInv_def trigger_started)
  have d: "triggerResourceLoading env w = (AlreadyResolved, w)"
    if "loadingState (tDetails w) = COMPLETE \<or> loadingState (tDetails w) = FAILED"
    using inv that by (auto simp add: loadInv_def trigger_started)
  from a b c d show ?thesis by blast
qed


lemmas loading_defs =
  triggerResourceLoading_def effectiveDependenciesFn_def pendingTasksAdd_def pendingTasksRemove_def
  invokeTriggerCleanupFns_def loadingSettled_def loadingSettledNoDeps_def settleLoading_def
  afterResourceLoading_def addDepsToRegistry_def runLoad_def handleError_def
  componentDep_def pipeDep_def

lemmas trigger_defs =
  deferWhen_def bindingUpdated_def triggerDeferBlock_def shouldTriggerDeferBlock_def
  invokeAllTriggerCleanupFns_def renderDeferStateAfterResourceLoading_def renderPlaceholder_def

theorem C3_triggerResourceLoading_idempotent_witness:
  "resolverCalls (snd (triggerResourceLoading browserEnv (deferWorld plainBlock))) = [7] \<and>
   fst (triggerResourceLoading browserEnv (deferWorld plainBlock)) = InFlight 0 \<and>
   ngDevMode devEnv \<and> interceptor devEnv = None \<and>
   resolverCalls (snd (triggerResourceLoading devEnv (deferWorld plainBlock))) = [7] \<and>
   ngDevMode interceptedEnv \<and>
   resolverCalls (snd (triggerResourceLoading interceptedEnv (deferWorld plainBlock))) = [9] \<and>
   renderedState (runLoad browserEnv [(0, When (JSBool True)), (1, Trigger), (2, TriggerBlock)]
     (deferWorld plainBlock)) = Rendered Loading \<and>
   loadingState (tDetails (runLoad browserEnv [(0, When (JSBool True)), (1, Trigger), (2, TriggerBlock)]
     (deferWorld plainBlock))) = IN_PROGRESS \<and>
   resolverCalls (runLoad browserEnv [(0, When (JSBool True)), (1, Trigger), (2, TriggerBlock)]
     (deferWorld plainBlock)) = [7] \<and>
   fst (triggerResourceLoading browserEnv
         (runLoad browserEnv [(0, When (JSBool True)), (1, Trigger), (2, TriggerBlock)]
           (deferWorld plainBlock))) = InFlight 0 \<and>
   renderedState (runLoad browserEnv
       [(0, When (JSBool True)), (5, Settle [Fulfilled componentDep]), (6, Trigger), (7, TriggerPrefetch)]
       (deferWorld plainBlock)) = Rendered Complete \<and>
   loadingState (tDetails (runLoad browserEnv
       [(0, When (JSBool True)), (5, Settle [Fulfilled componentDep]), (6, Trigger), (7, TriggerPrefetch)]
       (deferWorld plainBlock))) = COMPLETE \<and>
   fst (triggerResourceLoading browserEnv (runLoad browserEnv
       [(0, When (JSBool True)), (5, Settle [Fulfilled componentDep]), (6, Trigger), (7, TriggerPrefetch)]
       (deferWorld plainBlock))) = AlreadyResolved \<and>
   resolverCalls (runLoad browserEnv
       [(0, When (JSBool True)), (5, Settle [Fulfilled componentDep]), (6, Trigger), (7, TriggerPrefetch)]
       (deferWorld plainBlock)) = [7]"
proof -
  let ?w0 = "deferWorld plainBlock"
  let ?e1 = "[(0, When (JSBool True)), (1, Trigger), (2, TriggerBlock)]"
  let ?e2 = "[(0, When (JSBool True)), (5, Settle [Fulfilled componentDep]), (6, Trigger), (7, TriggerPrefetch)]"
  let ?w1 = "runLoad browserEnv ?e1 ?w0"
  let ?w2 = "runLoad browserEnv ?e2 ?w0"
  have s0: "loadingState (tDetails ?w0) = NOT_STARTED"
    by (simp add: example_defs)
  have dv: "ngDevMode devEnv" "interceptor devEnv = None" "ngDevMode interceptedEnv"
    "interceptor interceptedEnv = Some (\<lambda>fn. Some 9)" "\<not> ngDevMode browserEnv"
    by (simp_all add: devEnv_def interceptedEnv_def browserEnv_def)
  have r1: "renderedState ?w1 = Rendered Loading"
    by (simp add: loading_defs trigger_defs engine_defs example_defs Let_def)
  have s1: "loadingState (tDetails ?w1) = IN_PROGRESS"
    by (simp add: loading_defs trigger_defs engine_defs example_defs Let_def)
  have c1: "resolverCalls ?w1 = [7]"
    by (simp add: loading_defs trigger_defs engine_defs example_defs Let_def)
  have r2: "renderedState ?w2 = Rendered Complete"
    by (simp add: loading_defs trigger_defs engine_defs example_defs triggerPrefetching_def Let_def)
  have s2: "loadingState (tDetails ?w2) = COMPLETE"
    by (simp add: loading_defs trigger_defs engine_defs example_defs triggerPrefetching_def Let_def)
  have c2: "resolverCalls ?w2 = [7]"
    by (simp add: loading_defs trigger_defs engine_defs example_defs triggerPrefetching_def Let_def)
  have w0: "?w0 = runLoad env [] (deferWorld (deferTDetails 1 (Some 7) (Some 2) (Some 3) (Some 4) None None))"
    for env by (simp add: runLoad_def plainBlock_def)
  from C3_triggerResourceLoading_idempotent [OF w0 [of browserEnv]] s0 dv
  have a: "resolverCalls (snd (triggerResourceLoading browserEnv ?w0)) = [7]"
    "fst (triggerResourceLoading browserEnv ?w0) = InFlight 0" by simp_all
  from C3_triggerResourceLoading_idempotent [OF w0 [of devEnv]] s0 dv
  have b: "resolverCalls (snd (triggerResourceLoading devEnv ?w0)) = [7]" by simp
  from C3_triggerResourceLoading_idempotent [OF w0 [of interceptedEnv]] s0 dv
  have c: "resolverCalls (snd (triggerResourceLoading interceptedEnv ?w0)) = [9]" by simp
  from C3_triggerResourceLoading_idempotent [of ?w1 browserEnv ?e1 1 "Some 7" "Some 2" "Some 3" "Some 4" None None] s1
  have d: "fst (triggerResourceLoading browserEnv ?w1) = InFlight 0"
    by (simp add: plainBlock_def)
  from C3_triggerResourceLoading_idempotent [of ?w2 browserEnv ?e2 1 "Some 7" "Some 2" "Some 3" "Some 4" None None] s2
  have e: "fst (triggerResourceLoading browserEnv ?w2) = AlreadyResolved"
    by (simp add: plainBlock_def)
  from a dv b c r1 s1 c1 d r2 s2 e c2 show ?thesis by (simp only: simp_thms)
qed

theorem C4_any_rejection_fails_the_load_witness:
  "Rejected \<in> set [Fulfilled componentDep, Rejected, Fulfilled pipeDep] \<and>
   loadingState (tDetails (loadingSettled browserEnv 0 [Fulfilled componentDep, Rejected, Fulfilled pipeDep]
      (snd (triggerResourceLoading browserEnv (deferWorld noLoadingBlock))))) = FAILED \<and>
   directiveRegistry (loadingSettled browserEnv 0 [Fulfilled componentDep, Rejected, Fulfilled pipeDep]
      (snd (triggerResourceLoading browserEnv (deferWorld noLoadingBlock)))) = None \<and>
   handledErrors (loadingSettled browserEnv 0 [Fulfilled componentDep, Rejected, Fulfilled pipeDep]
      (snd (triggerResourceLoading browserEnv (deferWorld noLoadingBlock)))) = [DEFER_LOADING_FAILED] \<and>
   Rejected \<notin> set [Fulfilled componentDep, Fulfilled pipeDep] \<and>
   loadingState (tDetails (loadingSettled browserEnv 0 [Fulfilled componentDep, Fulfilled pipeDep]
      (snd (triggerResourceLoading browserEnv (deferWorld noLoadingBlock))))) = COMPLETE"
proof -
  let ?w = "snd (triggerResourceLoading browserEnv (deferWorld noLoadingBlock))"
  have e: "errorTmplIndex (tDetails ?w) = None" "handledErrors ?w = []" "directiveRegistry ?w = None"
    by (simp_all add: loading_defs example_defs Let_def)
  have r: "Rejected \<in> set [Fulfilled componentDep, Rejected, Fulfilled pipeDep]" by simp
  have n: "Rejected \<notin> set [Fulfilled componentDep, Fulfilled pipeDep]" by simp
  from C4_any_rejection_fails_the_load [of "[Fulfilled componentDep, Rejected, Fulfilled pipeDep]" browserEnv 0 ?w]
    C4_any_rejection_fails_the_load [of "[Fulfilled componentDep, Fulfilled pipeDep]" browserEnv 0 ?w] e r n
  show ?thesis by simp
qed

section \<open>Properties of the trigger instructions\<close>

lemma needsScheduling_server [simp]:
  "\<not> isPlatformBrowser env \<Longrightarrow> needsScheduling env skip t = False"
  by (simp add: needsScheduling_def)

lemma applyDeferBlockState_armed:
  "hooks (fst (applyDeferBlockState env s w)) = hooks w \<and>
   hookSeq (fst (applyDeferBlockState env s w)) = hookSeq w \<and>
   timers (fst (applyDeferBlockState env s w)) = timers w \<and>
   timerSeq (fst (applyDeferBlockState env s w)) = timerSeq w \<and>
   TRIGGER_CLEANUP_FNS (lDetails (fst (applyDeferBlockState env s w))) = TRIGGER_CLEANUP_FNS (lDetails w) \<and>
   PREFETCH_TRIGGER_CLEANUP_FNS (lDetails (fst (applyDeferBlockState env s w)))
     = PREFETCH_TRIGGER_CLEANUP_FNS (lDetails w) \<and>
   LOADING_AFTER_CLEANUP_FN (lDetails (fst (applyDeferBlockState env s w)))
     = LOADING_AFTER_CLEANUP_FN (lDetails w)"
  by (simp add: applyDeferBlockState_def Let_def split: option.splits)

lemma render_server_armed:
  assumes "\<not> isPlatformBrowser env"
  shows "hooks (renderDeferBlockState env now s skip w) = hooks w \<and>
   hookSeq (renderDeferBlockState env now s skip w) = hookSeq w \<and>
   timers (renderDeferBlockState env now s skip w) = timers w \<and>
   timerSeq (renderDeferBlockState env now s skip w) = timerSeq w \<and>
   TRIGGER_CLEANUP_FNS (lDetails (renderDeferBlockState env now s skip w)) = TRIGGER_CLEANUP_FNS (lDetails w) \<and>
   PREFETCH_TRIGGER_CLEANUP_FNS (lDetails (renderDeferBlockState env now s skip w))
     = PREFETCH_TRIGGER_CLEANUP_FNS (lDetails w) \<and>
   LOADING_AFTER_CLEANUP_FN (lDetails (renderDeferBlockState env now s skip w))
     = LOADING_AFTER_CLEANUP_FN (lDetails w)"
  using assms applyDeferBlockState_armed [of env s w]
  by (simp add: renderDeferBlockState_def Let_def split_beta handleError_def)

lemma render_no_template:
  assumes "\<not> isPlatformBrowser env" "getTemplateIndexForState s (tDetails w) = None"
  shows "renderDeferBlockState env now s skip w = w"
  using assms by (simp add: renderDeferBlockState_def Let_def applyDeferBlockState_no_template)

text \<open>
  Claim C8. Outside a browser, the instructions for \<open>on idle\<close> and \<open>on timer\<close> never
  invoke the scheduling function: no hook and no timer is armed and no cleanup function
  is stored. The regular trigger does what \<open>renderPlaceholder\<close> does and nothing else
  (nothing at all when the block has no placeholder); the prefetch trigger leaves the
  world as it is.
\<close>

theorem C8_no_scheduling_outside_browser:
  assumes "\<not> isPlatformBrowser env"
  shows "scheduleDelayedTrigger env now scheduleFn w = renderPlaceholder env now w \<and>
    hooks (scheduleDelayedTrigger env now scheduleFn w) = hooks w \<and>
    hookSeq (scheduleDelayedTrigger env now scheduleFn w) = hookSeq w \<and>
    timers (scheduleDelayedTrigger env now scheduleFn w) = timers w \<and>
    timerSeq (scheduleDelayedTrigger env now scheduleFn w) = timerSeq w \<and>
    TRIGGER_CLEANUP_FNS (lDetails (scheduleDelayedTrigger env now scheduleFn w))
      = TRIGGER_CLEANUP_FNS (lDetails w) \<and>
    PREFETCH_TRIGGER_CLEANUP_FNS (lDetails (scheduleDelayedTrigger env now scheduleFn w))
      = PREFETCH_TRIGGER_CLEANUP_FNS (lDetails w) \<and>
    LOADING_AFTER_CLEANUP_FN (lDetails (scheduleDelayedTrigger env now scheduleFn w))
      = LOADING_AFTER_CLEANUP_FN (lDetails w) \<and>
    loadingPart (scheduleDelayedTrigger env now scheduleFn w) = loadingPart w \<and>
    (placeholderTmplIndex (tDetails w) = None \<longrightarrow> scheduleDelayedTrigger env now scheduleFn w = w) \<and>
    scheduleDelayedPrefetching env scheduleFn w = w \<and>
    deferOnIdle env now w = renderPlaceholder env now w \<and>
    deferOnTimer env now delay w = renderPlaceholder env now w \<and>
    deferPrefetchOnIdle env w = w \<and>
    deferPrefetchOnTimer env delay w = w"
proof -
  have t: "scheduleDelayedTrigger env now sf w = renderPlaceholder env now w" for sf
    using assms by (simp add: scheduleDelayedTrigger_def Let_def)
  have p: "scheduleDelayedPrefetching env sf w = w" for sf
    using assms by (simp add: scheduleDelayedPrefetching_def)
  have n: "renderPlaceholder env now w = w" if "placeholderTmplIndex (tDetails w) = None"
    using assms that by (simp add: renderPlaceholder_def render_no_template)
  from t p n render_server_armed [OF assms, of now Placeholder False w] show ?thesis
    by (simp add: renderPlaceholder_def deferOnIdle_def deferOnTimer_def deferPrefetchOnIdle_def
        deferPrefetchOnTimer_def)
qed

theorem C8_no_scheduling_outside_browser_witness:
  "\<not> isPlatformBrowser serverEnv \<and>
   scheduleDelayedTrigger serverEnv 0 (OnTimer 500) (deferWorld plainBlock)
     = renderPlaceholder serverEnv 0 (deferWorld plainBlock) \<and>
   renderedState (scheduleDelayedTrigger serverEnv 0 (OnTimer 500) (deferWorld plainBlock))
     = Rendered Placeholder \<and>
   lContainer (scheduleDelayedTrigger serverEnv 0 (OnTimer 500) (deferWorld plainBlock)) = [3] \<and>
   hooks (scheduleDelayedTrigger serverEnv 0 (OnTimer 500) (deferWorld plainBlock)) = [] \<and>
   timers (scheduleDelayedTrigger serverEnv 0 (OnTimer 500) (deferWorld plainBlock)) = [] \<and>
   TRIGGER_CLEANUP_FNS (lDetails (scheduleDelayedTrigger serverEnv 0 (OnTimer 500) (deferWorld plainBlock)))
     = Some [RemoveLViewOnDestroy] \<and>
   placeholderTmplIndex (tDetails (deferWorld (deferTDetails 1 (Some 7) None None None None None))) = None \<and>
   scheduleDelayedTrigger serverEnv 0 OnIdle (deferWorld (deferTDetails 1 (Some 7) None None None None None))
     = deferWorld (deferTDetails 1 (Some 7) None None None None None) \<and>
   scheduleDelayedPrefetching serverEnv OnIdle (deferWorld plainBlock) = deferWorld plainBlock \<and>
   hooks (scheduleDelayedTrigger browserEnv 0 (OnTimer 500) (deferWorld plainBlock))
     = [(0, OnTimer 500, TriggerDeferBlock)]"
proof -
  let ?w = "deferWorld plainBlock"
  let ?v = "deferWorld (deferTDetails 1 (Some 7) None None None None None)"
  have s: "\<not> isPlatformBrowser serverEnv" by (simp add: example_defs)
  have r: "renderedState (renderPlaceholder serverEnv 0 ?w) = Rendered Placeholder"
      "lContainer (renderPlaceholder serverEnv 0 ?w) = [3]"
    by (simp_all add: renderPlaceholder_def engine_defs example_defs)
  have i: "hooks ?w = []" "timers ?w = []" "TRIGGER_CLEANUP_FNS (lDetails ?w) = Some [RemoveLViewOnDestroy]"
    "placeholderTmplIndex (tDetails ?v) = None"
    by (simp_all add: example_defs)
  have b: "hooks (scheduleDelayedTrigger browserEnv 0 (OnTimer 500) ?w) = [(0, OnTimer 500, TriggerDeferBlock)]"
    by (simp add: scheduleDelayedTrigger_def renderPlaceholder_def invokeScheduleFn_def
        storeTriggerCleanupFn_def engine_defs example_defs Let_def)
  from C8_no_scheduling_outside_browser [where env = serverEnv and now = 0 and scheduleFn = "OnTimer 500" and w = ?w
      and delay = 500, OF s]
  have t1: "scheduleDelayedTrigger serverEnv 0 (OnTimer 500) ?w = renderPlaceholder serverEnv 0 ?w"
    and t2: "hooks (scheduleDelayedTrigger serverEnv 0 (OnTimer 500) ?w) = hooks ?w"
    and t3: "timers (scheduleDelayedTrigger serverEnv 0 (OnTimer 500) ?w) = timers ?w"
    and t4: "TRIGGER_CLEANUP_FNS (lDetails (scheduleDelayedTrigger serverEnv 0 (OnTimer 500) ?w))
      = TRIGGER_CLEANUP_FNS (lDetails ?w)"
    by blast+
  from C8_no_scheduling_outside_browser [where env = serverEnv and now = 0 and scheduleFn = OnIdle and w = ?v
      and delay = 500, OF s] i(4)
  have t5: "scheduleDelayedTrigger serverEnv 0 OnIdle ?v = ?v"
    by blast
  from C8_no_scheduling_outside_browser [where env = serverEnv and now = 0 and scheduleFn = OnIdle and w = ?w
      and delay = 500, OF s]
  have t6: "scheduleDelayedPrefetching serverEnv OnIdle ?w = ?w"
    by blast
  from r have r': "renderedState (scheduleDelayedTrigger serverEnv 0 (OnTimer 500) ?w) = Rendered Placeholder"
      "lContainer (scheduleDelayedTrigger serverEnv 0 (OnTimer 500) ?w) = [3]"
    by (simp_all only: t1)
  show ?thesis
    using s t1 r' t2 t3 t4 i t5 t6 b by (simp only: simp_thms)
qed

section \<open>Properties of the trigger parser\<close>

lemma not_digit_chars [simp]:
  "\<not> isDigit CHR ''.''" "\<not> isDigit CHR ''m''" "\<not> isDigit CHR ''s''"
  by (simp_all add: isDigit_def)



lemma takeWhile_unit [simp]:
  "u = [] \<or> u = ''ms'' \<or> u = ''s'' \<Longrightarrow> takeWhile isDigit u = []"
  by auto

lemma dropWhile_unit [simp]:
  "u = [] \<or> u = ''ms'' \<or> u = ''s'' \<Longrightarrow> dropWhile isDigit u = u"
  by auto









lemma list_all_takeWhile [simp]: "list_all P (takeWhile P xs)"
  by (induction xs) simp_all






lemma isElement_iff: "isElement c \<longleftrightarrow> (\<exists>name. c = Element name)"
  by (cases c) simp_all

lemma validate_many:
  "length ps > 1 \<Longrightarrow> validateReferenceBasedTrigger ty ps ph = Inl (tooManyParameters ty)"
  by (simp add: validateReferenceBasedTrigger_def tooManyParameters_def)

lemma validate_one: "validateReferenceBasedTrigger ty [p] ph = Inr ()"
  by (simp add: validateReferenceBasedTrigger_def)

lemma validate_none_ok:
  "singleRootElement ph \<Longrightarrow> validateReferenceBasedTrigger ty [] ph = Inr ()"
  by (auto simp add: validateReferenceBasedTrigger_def singleRootElement_def)

lemma validate_none_bad:
  "\<not> singleRootElement ph \<Longrightarrow> \<exists>m. validateReferenceBasedTrigger ty [] ph = Inl m"
  by (auto simp add: validateReferenceBasedTrigger_def singleRootElement_def isElement_iff
      split: option.splits list.splits)

lemma typeNames_distinct [simp]:
  "triggerTypeName a = triggerTypeName b \<longleftrightarrow> a = b"
  by (cases a; cases b) simp_all

lemma consume_hover:
  "consumeTrigger ''hover'' ps ph st =
     (case createHoverTrigger ps ph of
        Inl m \<Rightarrow> (fst st, snd st @ [m])
      | Inr t \<Rightarrow> trackTrigger ''hover'' t st)"
  by (simp add: consumeTrigger_def split: sum.splits)

lemma consume_interaction:
  "consumeTrigger ''interaction'' ps ph st =
     (case createInteractionTrigger ps ph of
        Inl m \<Rightarrow> (fst st, snd st @ [m])
      | Inr t \<Rightarrow> trackTrigger ''interaction'' t st)"
  by (simp add: consumeTrigger_def split: sum.splits)

lemma consume_viewport:
  "consumeTrigger ''viewport'' ps ph st =
     (case createViewportTrigger ps ph of
        Inl m \<Rightarrow> (fst st, snd st @ [m])
      | Inr t \<Rightarrow> trackTrigger ''viewport'' t st)"
  by (simp add: consumeTrigger_def split: sum.splits)

text \<open>
  Claim C9. For each of the hover, interaction and viewport triggers: more than one
  parameter is the error "can only have zero or one parameters", which \<open>consumeTrigger\<close>
  records as a parse error; no parameter is an error unless the block has a placeholder
  whose children are exactly one root element; with no parameter and such a placeholder,
  or with one parameter, a descriptor is produced whose reference name is null or that
  parameter.
\<close>

theorem C9_reference_based_trigger_parameters:
  "(length ps > 1 \<longrightarrow>
      createHoverTrigger ps ph = Inl (tooManyParameters HOVER) \<and>
      createInteractionTrigger ps ph = Inl (tooManyParameters INTERACTION) \<and>
      createViewportTrigger ps ph = Inl (tooManyParameters VIEWPORT) \<and>
      consumeTrigger ''hover'' ps ph (trs, errs) = (trs, errs @ [tooManyParameters HOVER]) \<and>
      consumeTrigger ''interaction'' ps ph (trs, errs) = (trs, errs @ [tooManyParameters INTERACTION]) \<and>
      consumeTrigger ''viewport'' ps ph (trs, errs) = (trs, errs @ [tooManyParameters VIEWPORT])) \<and>
   (\<not> singleRootElement ph \<longrightarrow>
      (\<exists>m. createHoverTrigger [] ph = Inl m \<and>
           consumeTrigger ''hover'' [] ph (trs, errs) = (trs, errs @ [m])) \<and>
      (\<exists>m. createInteractionTrigger [] ph = Inl m \<and>
           consumeTrigger ''interaction'' [] ph (trs, errs) = (trs, errs @ [m])) \<and>
      (\<exists>m. createViewportTrigger [] ph = Inl m \<and>
           consumeTrigger ''viewport'' [] ph (trs, errs) = (trs, errs @ [m]))) \<and>
   (singleRootElement ph \<longrightarrow>
      createHoverTrigger [] ph = Inr (HoverDeferredTrigger None) \<and>
      createInteractionTrigger [] ph = Inr (InteractionDeferredTrigger None) \<and>
      createViewportTrigger [] ph = Inr (ViewportDeferredTrigger None)) \<and>
   createHoverTrigger [p] ph = Inr (HoverDeferredTrigger (Some p)) \<and>
   createInteractionTrigger [p] ph = Inr (InteractionDeferredTrigger (Some p)) \<and>
   createViewportTrigger [p] ph = Inr (ViewportDeferredTrigger (Some p))"
proof -
  have many: "createHoverTrigger ps ph = Inl (tooManyParameters HOVER) \<and>
      createInteractionTrigger ps ph = Inl (tooManyParameters INTERACTION) \<and>
      createViewportTrigger ps ph = Inl (tooManyParameters VIEWPORT) \<and>
      consumeTrigger ''hover'' ps ph (trs, errs) = (trs, errs @ [tooManyParameters HOVER]) \<and>
      consumeTrigger ''interaction'' ps ph (trs, errs) = (trs, errs @ [tooManyParameters INTERACTION]) \<and>
      consumeTrigger ''viewport'' ps ph (trs, errs) = (trs, errs @ [tooManyParameters VIEWPORT])"
    if "length ps > 1"
    using that
    by (simp add: consume_hover consume_interaction consume_viewport createHoverTrigger_def
        createInteractionTrigger_def createViewportTrigger_def validate_many)
  have bad: "(\<exists>m. createHoverTrigger [] ph = Inl m \<and>
           consumeTrigger ''hover'' [] ph (trs, errs) = (trs, errs @ [m])) \<and>
      (\<exists>m. createInteractionTrigger [] ph = Inl m \<and>
           consumeTrigger ''interaction'' [] ph (trs, errs) = (trs, errs @ [m])) \<and>
      (\<exists>m. createViewportTrigger [] ph = Inl m \<and>
           consumeTrigger ''viewport'' [] ph (trs, errs) = (trs, errs @ [m]))"
    if "\<not> singleRootElement ph"
  proof -
    from validate_none_bad [OF that, of HOVER] validate_none_bad [OF that, of INTERACTION]
      validate_none_bad [OF that, of VIEWPORT]
    obtain mh mi mv where "validateReferenceBasedTrigger HOVER [] ph = Inl mh"
      "validateReferenceBasedTrigger INTERACTION [] ph = Inl mi"
      "validateReferenceBasedTrigger VIEWPORT [] ph = Inl mv"
      by blast
    then show ?thesis
      by (simp add: consume_hover consume_interaction consume_viewport createHoverTrigger_def
        createInteractionTrigger_def createViewportTrigger_def)
  qed
  have good: "createHoverTrigger [] ph = Inr (HoverDeferredTrigger None) \<and>
      createInteractionTrigger [] ph = Inr (InteractionDeferredTrigger None) \<and>
      createViewportTrigger [] ph = Inr (ViewportDeferredTrigger None)"
    if "singleRootElement ph"
    using that
    by (simp add: createHoverTrigger_def createInteractionTrigger_def createViewportTrigger_def
        validate_none_ok firstParameter_def)
  have one: "createHoverTrigger [p] ph = Inr (HoverDeferredTrigger (Some p)) \<and>
   createInteractionTrigger [p] ph = Inr (InteractionDeferredTrigger (Some p)) \<and>
   createViewportTrigger [p] ph = Inr (ViewportDeferredTrigger (Some p))"
    by (simp add: createHoverTrigger_def createInteractionTrigger_def createViewportTrigger_def
        validate_one firstParameter_def)
  from many bad good one show ?thesis by blast
qed

theorem C9_reference_based_trigger_parameters_witness:
  "length [''a'', ''b''] > 1 \<and>
   createHoverTrigger [''a'', ''b''] None = Inl (tooManyParameters HOVER) \<and>
   tooManyParameters HOVER = CHR 0x22 # ''hover'' @ CHR 0x22 # '' trigger can only have zero or one parameters'' \<and>
   consumeTrigger ''hover'' [''a'', ''b''] None (Map.empty, []) = (Map.empty, [tooManyParameters HOVER]) \<and>
   \<not> singleRootElement (Some textPlaceholder) \<and>
   (\<exists>m. createViewportTrigger [] (Some textPlaceholder) = Inl m) \<and>
   singleRootElement (Some buttonPlaceholder) \<and>
   createInteractionTrigger [] (Some buttonPlaceholder) = Inr (InteractionDeferredTrigger None) \<and>
   createHoverTrigger [''ref''] None = Inr (HoverDeferredTrigger (Some ''ref''))"
proof -
  have l: "length [''a'', ''b''] > 1" by simp
  have b: "\<not> singleRootElement (Some textPlaceholder)"
    by (simp add: singleRootElement_def textPlaceholder_def)
  have g: "singleRootElement (Some buttonPlaceholder)"
    by (simp add: singleRootElement_def buttonPlaceholder_def)
  have m: "tooManyParameters HOVER = CHR 0x22 # ''hover'' @ CHR 0x22 # '' trigger can only have zero or one parameters''"
    by (simp add: tooManyParameters_def quoted_def)
  from C9_reference_based_trigger_parameters [of "[''a'', ''b'']" None Map.empty "[]" "''ref''"] l
  have t1: "createHoverTrigger [''a'', ''b''] None = Inl (tooManyParameters HOVER)"
    and t2: "consumeTrigger ''hover'' [''a'', ''b''] None (Map.empty, []) = (Map.empty, [tooManyParameters HOVER])"
    and t3: "createHoverTrigger [''ref''] None = Inr (HoverDeferredTrigger (Some ''ref''))"
    by simp_all
  from C9_reference_based_trigger_parameters [of "[]" "Some textPlaceholder" Map.empty "[]" "''ref''"] b
  have t4: "\<exists>m. createViewportTrigger [] (Some textPlaceholder) = Inl m" by blast
  from C9_reference_based_trigger_parameters [of "[]" "Some buttonPlaceholder" Map.empty "[]" "''ref''"] g
  have t5: "createInteractionTrigger [] (Some buttonPlaceholder) = Inr (InteractionDeferredTrigger None)"
    by blast
  from l t1 m t2 b t4 g t5 t3 show ?thesis by (simp only: simp_thms)
qed

section \<open>Properties of the \<open>when\<close> trigger\<close>

lemma renderedState_updates [simp]:
  "renderedState (w\<lparr>lDetails := (lDetails v)\<lparr>STATE_IS_FROZEN_UNTIL := x\<rparr>\<rparr>) = renderedState v"
  "renderedState (w\<lparr>lDetails := (lDetails v)\<lparr>NEXT_DEFER_BLOCK_STATE := y\<rparr>\<rparr>) = renderedState v"
  "renderedState (w\<lparr>bindingSlot := b\<rparr>) = renderedState w"
  "renderedState (handleError e w) = renderedState w"
  by (simp_all add: renderedState_def handleError_def)

lemma applyWithScheduling_no_template:
  assumes "getTemplateIndexForState s (tDetails w) = None"
  shows "renderedState (fst (applyDeferBlockStateWithScheduling env now s w)) = renderedState w"
  using assms
  by (simp add: applyDeferBlockStateWithScheduling_def Let_def applyUnscheduled_rendered
      split: option.splits)

lemma render_no_template_rendered:
  assumes "getTemplateIndexForState s (tDetails w) = None"
  shows "renderedState (renderDeferBlockState env now s skip w) = renderedState w"
  using assms applyWithScheduling_no_template [OF assms, of env now]
  by (simp add: renderDeferBlockState_def Let_def split_beta applyDeferBlockState_rendered)

lemma applyWithScheduling_applied:
  assumes "notFrozen now w"
    and "s = Loading \<longrightarrow> getLoadingBlockAfter (tDetails w) = None \<or> LOADING_AFTER_CLEANUP_FN (lDetails w) \<noteq> None"
    and "getTemplateIndexForState s (tDetails w) \<noteq> None"
  shows "renderedState (fst (applyDeferBlockStateWithScheduling env now s w)) = Rendered s"
proof -
  let ?w1 = "w\<lparr>lDetails := (lDetails w)\<lparr>STATE_IS_FROZEN_UNTIL := None\<rparr>\<rparr>"
  have u: "renderedState (fst (applyUnscheduled env now s ?w1)) = Rendered s"
    using assms(3) by (auto simp add: applyUnscheduled_rendered)
  from assms(1,2) u show ?thesis
    by (auto simp add: applyDeferBlockStateWithScheduling_def notFrozen_def Let_def split: option.splits)
qed

lemma render_applied:
  assumes "\<not> destroyed w"
    and "storedNum (renderedState w) < stateNum s"
    and "nextStateNum (NEXT_DEFER_BLOCK_STATE (lDetails w)) < stateNum s"
    and "getTemplateIndexForState s (tDetails w) \<noteq> None"
    and "notFrozen now w"
    and "s = Loading \<longrightarrow> getLoadingBlockAfter (tDetails w) = None \<or> LOADING_AFTER_CLEANUP_FN (lDetails w) \<noteq> None"
  shows "renderedState (renderDeferBlockState env now s skip w) = Rendered s"
proof -
  have a: "renderedState (fst (applyDeferBlockState env s w)) = Rendered s"
    using assms(4) by (auto simp add: applyDeferBlockState_rendered)
  have b: "renderedState (fst (applyDeferBlockStateWithScheduling env now s w)) = Rendered s"
    using assms(5,6,4) by (rule applyWithScheduling_applied)
  have h: "renderedState (handleError e v) = renderedState v" for e v
    by (simp add: handleError_def renderedState_def)
  from assms(1,2,3) a b show ?thesis
    by (simp add: renderDeferBlockState_def isValidStateChange_def renderedState_def [symmetric]
        Let_def split_beta h)
qed

lemma invokeAll_frame [simp]:
  "tDetails (invokeAllTriggerCleanupFns w) = tDetails w"
  "destroyed (invokeAllTriggerCleanupFns w) = destroyed w"
  "lContainer (invokeAllTriggerCleanupFns w) = lContainer w"
  "renderedState (invokeAllTriggerCleanupFns w) = renderedState w"
  "NEXT_DEFER_BLOCK_STATE (lDetails (invokeAllTriggerCleanupFns w)) = NEXT_DEFER_BLOCK_STATE (lDetails w)"
  "LOADING_AFTER_CLEANUP_FN (lDetails (invokeAllTriggerCleanupFns w)) = LOADING_AFTER_CLEANUP_FN (lDetails w)"
  "notFrozen now (invokeAllTriggerCleanupFns w) = notFrozen now w"
  by (simp_all add: invokeAllTriggerCleanupFns_def renderedState_def notFrozen_def)

lemma triggerResourceLoading_rendered [simp]:
  "renderedState (snd (triggerResourceLoading env w)) = renderedState w"
  by (simp add: triggerResourceLoading_def renderedState_def Let_def pendingTasksAdd_def
      split: option.splits prod.splits)

lemma renderAfterLoading_rendered [simp]:
  "renderedState (renderDeferStateAfterResourceLoading w) = renderedState w"
  by (simp add: renderDeferStateAfterResourceLoading_def renderedState_def split: option.splits)

lemma triggerDeferBlock_rendered:
  "renderedState (triggerDeferBlock env now w) = renderedState w \<or>
   renderedState (triggerDeferBlock env now w) = Rendered Loading \<or>
   renderedState (triggerDeferBlock env now w) = Rendered Complete \<or>
   renderedState (triggerDeferBlock env now w) = Rendered Error"
proof -
  let ?w1 = "invokeAllTriggerCleanupFns w"
  have r: "renderedState (renderDeferBlockState env now s False ?w1) = renderedState w \<or>
           renderedState (renderDeferBlockState env now s False ?w1) = Rendered s" for s
    using render_rendered [of env now s False ?w1] by auto
  show ?thesis
    using r [of Loading] r [of Complete] r [of Error]
    by (auto simp add: triggerDeferBlock_def Let_def split: DeferDependenciesLoadingState.splits)
qed

lemma triggerDeferBlock_loading:
  assumes "shouldTriggerDeferBlock env" "\<not> destroyed w"
    and "renderedState w = Initial \<or> renderedState w = Rendered Placeholder"
    and "NEXT_DEFER_BLOCK_STATE (lDetails w) = None"
    and "loadingState (tDetails w) = NOT_STARTED \<or> loadingState (tDetails w) = IN_PROGRESS"
    and "loadingTmplIndex (tDetails w) \<noteq> None"
    and "getLoadingBlockAfter (tDetails w) = None"
    and "notFrozen now w"
  shows "renderedState (triggerDeferBlock env now w) = Rendered Loading"
proof -
  let ?w1 = "invokeAllTriggerCleanupFns w"
  have "renderedState (renderDeferBlockState env now Loading False ?w1) = Rendered Loading"
    using assms by (intro render_applied) (auto simp add: nextStateNum_def)
  with assms(1,5) show ?thesis
    by (auto simp add: triggerDeferBlock_def Let_def)
qed


lemma deferWhen_changed:
  "bindingSlot w \<noteq> Some rawValue \<Longrightarrow>
   deferWhen env now rawValue w =
     (let w1 = w\<lparr>bindingSlot := Some rawValue\<rparr>
      in if \<not> Boolean rawValue \<and> renderedState w = Initial then renderPlaceholder env now w1
         else if Boolean rawValue \<and> (renderedState w = Initial \<or> renderedState w = Rendered Placeholder)
         then triggerDeferBlock env now w1
         else w1)"
  by (simp add: deferWhen_def bindingUpdated_def Let_def renderedState_def)

lemma binding_frame [simp]:
  "notFrozen now (w\<lparr>bindingSlot := b\<rparr>) = notFrozen now w"
  by (simp_all add: notFrozen_def)

lemma triggerResourceLoading_thenCallbacks [simp]:
  "thenCallbacks (snd (triggerResourceLoading env w)) = thenCallbacks w"
  by (simp add: triggerResourceLoading_def Let_def pendingTasksAdd_def
      split: option.splits prod.splits)

lemma triggerDeferBlock_disabled:
  "\<not> shouldTriggerDeferBlock env \<Longrightarrow> triggerDeferBlock env now w = w"
  by (simp add: triggerDeferBlock_def)

lemma invokeAll_loading_frame [simp]:
  "resolverCalls (invokeAllTriggerCleanupFns w) = resolverCalls w"
  "thenCallbacks (invokeAllTriggerCleanupFns w) = thenCallbacks w"
  "promiseSeq (invokeAllTriggerCleanupFns w) = promiseSeq w"
  by (simp_all add: invokeAllTriggerCleanupFns_def)

lemma triggerDeferBlock_started:
  assumes "shouldTriggerDeferBlock env" "loadingState (tDetails w) = NOT_STARTED"
  shows "loadingState (tDetails (triggerDeferBlock env now w)) = IN_PROGRESS \<and>
    resolverCalls (triggerDeferBlock env now w) =
      resolverCalls w @ (case effectiveDependenciesFn env (tDetails w) of None \<Rightarrow> [] | Some fn \<Rightarrow> [fn]) \<and>
    thenCallbacks (triggerDeferBlock env now w) = thenCallbacks w @ [promiseSeq w]"
proof -
  let ?w1 = "invokeAllTriggerCleanupFns w"
  let ?w2 = "renderDeferBlockState env now Loading False ?w1"
  have n: "loadingState (tDetails ?w2) = NOT_STARTED" using assms(2) by (simp add: render_frame)
  have f: "resolverCalls ?w2 = resolverCalls w" "thenCallbacks ?w2 = thenCallbacks w"
    "promiseSeq ?w2 = promiseSeq w" "tDetails ?w2 = tDetails w"
    by (simp_all add: render_frame)
  from trigger_first [OF n, of env] f assms show ?thesis
    by (simp add: triggerDeferBlock_def Let_def renderDeferStateAfterResourceLoading_def)
qed

lemma triggerDeferBlock_in_progress:
  assumes "shouldTriggerDeferBlock env" "loadingState (tDetails w) = IN_PROGRESS"
  shows "loadingState (tDetails (triggerDeferBlock env now w)) = IN_PROGRESS \<and>
    resolverCalls (triggerDeferBlock env now w) = resolverCalls w \<and>
    thenCallbacks (triggerDeferBlock env now w) =
      thenCallbacks w @ (case loadingPromise (tDetails w) of None \<Rightarrow> [] | Some p \<Rightarrow> [p])"
  using assms
  by (simp add: triggerDeferBlock_def Let_def renderDeferStateAfterResourceLoading_def render_frame
      split: option.splits)

lemma triggerDeferBlock_settled:
  assumes "shouldTriggerDeferBlock env"
    and "loadingState (tDetails w) = COMPLETE \<and> s = Complete \<or> loadingState (tDetails w) = FAILED \<and> s = Error"
  shows "triggerDeferBlock env now w = renderDeferBlockState env now s False (invokeAllTriggerCleanupFns w)"
  using assms by (auto simp add: triggerDeferBlock_def Let_def)

lemma triggerDeferBlock_complete:
  assumes "shouldTriggerDeferBlock env" "\<not> destroyed w"
    and "renderedState w = Initial \<or> renderedState w = Rendered Placeholder"
    and "NEXT_DEFER_BLOCK_STATE (lDetails w) = None"
    and "loadingState (tDetails w) = COMPLETE"
    and "notFrozen now w"
  shows "renderedState (triggerDeferBlock env now w) = Rendered Complete"
proof -
  let ?w1 = "invokeAllTriggerCleanupFns w"
  have "renderedState (renderDeferBlockState env now Complete False ?w1) = Rendered Complete"
    using assms by (intro render_applied) (auto simp add: nextStateNum_def)
  with assms(1,5) show ?thesis
    by (simp add: triggerDeferBlock_settled [where s = Complete])
qed

lemma triggerDeferBlock_failed_no_template:
  assumes "loadingState (tDetails w) = FAILED" "errorTmplIndex (tDetails w) = None"
  shows "renderedState (triggerDeferBlock env now w) = renderedState w"
proof -
  let ?w1 = "invokeAllTriggerCleanupFns w"
  have "renderedState (renderDeferBlockState env now Error False ?w1) = renderedState ?w1"
    using assms(2) by (intro render_no_template_rendered) simp
  with assms(1) show ?thesis
    by (auto simp add: triggerDeferBlock_def Let_def)
qed

lemma triggerDeferBlock_failed:
  assumes "shouldTriggerDeferBlock env" "\<not> destroyed w"
    and "renderedState w = Initial \<or> renderedState w = Rendered Placeholder"
    and "NEXT_DEFER_BLOCK_STATE (lDetails w) = None"
    and "loadingState (tDetails w) = FAILED"
    and "notFrozen now w"
    and "errorTmplIndex (tDetails w) \<noteq> None"
  shows "renderedState (triggerDeferBlock env now w) = Rendered Error"
proof -
  note False = assms(7)
  let ?w1 = "invokeAllTriggerCleanupFns w"
  have "renderedState (renderDeferBlockState env now Error False ?w1) = Rendered Error"
    using assms False by (intro render_applied) (auto simp add: nextStateNum_def)
  with assms(1,5) False show ?thesis
    by (auto simp add: triggerDeferBlock_settled [where s = Error])
qed

lemma triggerDeferBlock_no_loading_template:
  assumes "loadingState (tDetails w) = NOT_STARTED \<or> loadingState (tDetails w) = IN_PROGRESS"
    and "loadingTmplIndex (tDetails w) = None"
  shows "renderedState (triggerDeferBlock env now w) = renderedState w"
proof -
  let ?w1 = "invokeAllTriggerCleanupFns w"
  have "renderedState (renderDeferBlockState env now Loading False ?w1) = renderedState ?w1"
    using assms(2) by (intro render_no_template_rendered) simp
  with assms(1) show ?thesis
    by (auto simp add: triggerDeferBlock_def Let_def)
qed

text \<open>
  Claim C7, amended. When the bound value of a \<open>when\<close> trigger changes to a truthy value
  while the rendered state is Initial or Placeholder, \<open>deferWhen\<close> does what
  \<open>triggerDeferBlock\<close> does; from Initial the block does not end up in the Placeholder
  state. If triggering is enabled (a browser, not the manual behaviour), the view is not
  destroyed, nothing is buffered, the instance is not frozen, loading has not completed
  or failed, and the block has a loading template without an \<open>after\<close> delay, the rendered
  state becomes Loading. With triggering enabled and loading not started, the call starts
  the loading: the state is IN_PROGRESS afterwards, the resolver function has been invoked
  and the instance is subscribed to the loading promise. Without a loading template the
  rendered state stays as it is. If triggering is disabled, the call only stores the new
  value of the binding. If loading has completed already (view not destroyed, nothing
  buffered, not frozen), the rendered state becomes Complete; if it has failed, the
  rendered state becomes Error when the block has an error template and stays as it is
  when it has none.
  When the value changes to a falsy value while the rendered state is Initial,
  \<open>deferWhen\<close> does what \<open>renderPlaceholder\<close> does: with a placeholder template (view not
  destroyed, nothing buffered, not frozen) the rendered state becomes Placeholder, without
  one it stays Initial.
\<close>

theorem C7_deferWhen_transitions:
  assumes "bindingSlot w \<noteq> Some rawValue"
  shows
   "(Boolean rawValue \<and> (renderedState w = Initial \<or> renderedState w = Rendered Placeholder) \<longrightarrow>
       deferWhen env now rawValue w = triggerDeferBlock env now (w\<lparr>bindingSlot := Some rawValue\<rparr>)) \<and>
    (Boolean rawValue \<and> renderedState w = Initial \<longrightarrow>
       renderedState (deferWhen env now rawValue w) \<noteq> Rendered Placeholder) \<and>
    (Boolean rawValue \<and> (renderedState w = Initial \<or> renderedState w = Rendered Placeholder) \<and>
     shouldTriggerDeferBlock env \<and> \<not> destroyed w \<and>
     NEXT_DEFER_BLOCK_STATE (lDetails w) = None \<and>
     (loadingState (tDetails w) = NOT_STARTED \<or> loadingState (tDetails w) = IN_PROGRESS) \<and>
     loadingTmplIndex (tDetails w) \<noteq> None \<and>
     getLoadingBlockAfter (tDetails w) = None \<and> notFrozen now w \<longrightarrow>
       renderedState (deferWhen env now rawValue w) = Rendered Loading) \<and>
    (Boolean rawValue \<and> (renderedState w = Initial \<or> renderedState w = Rendered Placeholder) \<and>
     shouldTriggerDeferBlock env \<and> loadingState (tDetails w) = NOT_STARTED \<longrightarrow>
       loadingState (tDetails (deferWhen env now rawValue w)) = IN_PROGRESS \<and>
       resolverCalls (deferWhen env now rawValue w) =
         resolverCalls w @
           (case effectiveDependenciesFn env (tDetails w) of None \<Rightarrow> [] | Some fn \<Rightarrow> [fn]) \<and>
       thenCallbacks (deferWhen env now rawValue w) = thenCallbacks w @ [promiseSeq w]) \<and>
    (Boolean rawValue \<and> (renderedState w = Initial \<or> renderedState w = Rendered Placeholder) \<and>
     (loadingState (tDetails w) = NOT_STARTED \<or> loadingState (tDetails w) = IN_PROGRESS) \<and>
     loadingTmplIndex (tDetails w) = None \<longrightarrow>
       renderedState (deferWhen env now rawValue w) = renderedState w) \<and>
    (Boolean rawValue \<and> (renderedState w = Initial \<or> renderedState w = Rendered Placeholder) \<and>
     \<not> shouldTriggerDeferBlock env \<longrightarrow>
       deferWhen env now rawValue w = w\<lparr>bindingSlot := Some rawValue\<rparr>) \<and>
    (Boolean rawValue \<and> (renderedState w = Initial \<or> renderedState w = Rendered Placeholder) \<and>
     shouldTriggerDeferBlock env \<and> \<not> destroyed w \<and>
     NEXT_DEFER_BLOCK_STATE (lDetails w) = None \<and> notFrozen now w \<and>
     loadingState (tDetails w) = COMPLETE \<longrightarrow>
       renderedState (deferWhen env now rawValue w) = Rendered Complete) \<and>
    (Boolean rawValue \<and> (renderedState w = Initial \<or> renderedState w = Rendered Placeholder) \<and>
     shouldTriggerDeferBlock env \<and> \<not> destroyed w \<and>
     NEXT_DEFER_BLOCK_STATE (lDetails w) = None \<and> notFrozen now w \<and>
     loadingState (tDetails w) = FAILED \<and> errorTmplIndex (tDetails w) \<noteq> None \<longrightarrow>
       renderedState (deferWhen env now rawValue w) = Rendered Error) \<and>
    (Boolean rawValue \<and> (renderedState w = Initial \<or> renderedState w = Rendered Placeholder) \<and>
     loadingState (tDetails w) = FAILED \<and> errorTmplIndex (tDetails w) = None \<longrightarrow>
       renderedState (deferWhen env now rawValue w) = renderedState w) \<and>
    (\<not> Boolean rawValue \<and> renderedState w = Initial \<longrightarrow>
       deferWhen env now rawValue w = renderPlaceholder env now (w\<lparr>bindingSlot := Some rawValue\<rparr>)) \<and>
    (\<not> Boolean rawValue \<and> renderedState w = Initial \<and> \<not> destroyed w \<and>
     NEXT_DEFER_BLOCK_STATE (lDetails w) = None \<and> notFrozen now w \<and>
     placeholderTmplIndex (tDetails w) \<noteq> None \<longrightarrow>
       renderedState (deferWhen env now rawValue w) = Rendered Placeholder) \<and>
    (\<not> Boolean rawValue \<and> renderedState w = Initial \<and>
     placeholderTmplIndex (tDetails w) = None \<longrightarrow>
       renderedState (deferWhen env now rawValue w) = Initial)"
proof -
  let ?w1 = "w\<lparr>bindingSlot := Some rawValue\<rparr>"
  let ?T = "Boolean rawValue \<and> (renderedState w = Initial \<or> renderedState w = Rendered Placeholder)"
  note d = deferWhen_changed [OF assms, of env now]
  have a: "deferWhen env now rawValue w = triggerDeferBlock env now ?w1" if "?T"
    using that by (simp add: d Let_def)
  have b: "renderedState (deferWhen env now rawValue w) \<noteq> Rendered Placeholder"
    if "Boolean rawValue \<and> renderedState w = Initial"
    using that a triggerDeferBlock_rendered [of env now ?w1] by auto
  have c: "renderedState (deferWhen env now rawValue w) = Rendered Loading"
    if "?T \<and> shouldTriggerDeferBlock env \<and> \<not> destroyed w \<and>
     NEXT_DEFER_BLOCK_STATE (lDetails w) = None \<and>
     (loadingState (tDetails w) = NOT_STARTED \<or> loadingState (tDetails w) = IN_PROGRESS) \<and>
     loadingTmplIndex (tDetails w) \<noteq> None \<and>
     getLoadingBlockAfter (tDetails w) = None \<and> notFrozen now w"
  proof -
    have "renderedState (triggerDeferBlock env now ?w1) = Rendered Loading"
      using that by (intro triggerDeferBlock_loading) simp_all
    with a that show ?thesis by simp
  qed
  have l: "loadingState (tDetails (deferWhen env now rawValue w)) = IN_PROGRESS \<and>
       resolverCalls (deferWhen env now rawValue w) =
         resolverCalls w @
           (case effectiveDependenciesFn env (tDetails w) of None \<Rightarrow> [] | Some fn \<Rightarrow> [fn]) \<and>
       thenCallbacks (deferWhen env now rawValue w) = thenCallbacks w @ [promiseSeq w]"
    if h: "?T \<and> shouldTriggerDeferBlock env \<and> loadingState (tDetails w) = NOT_STARTED"
  proof -
    from h have "shouldTriggerDeferBlock env" "loadingState (tDetails ?w1) = NOT_STARTED" by simp_all
    from triggerDeferBlock_started [OF this, of now] a h show ?thesis by simp
  qed
  have m: "renderedState (deferWhen env now rawValue w) = renderedState w"
    if h: "?T \<and> (loadingState (tDetails w) = NOT_STARTED \<or> loadingState (tDetails w) = IN_PROGRESS) \<and>
     loadingTmplIndex (tDetails w) = None"
  proof -
    have "renderedState (triggerDeferBlock env now ?w1) = renderedState ?w1"
      using h by (intro triggerDeferBlock_no_loading_template) simp_all
    with a h show ?thesis by simp
  qed
  have n: "deferWhen env now rawValue w = ?w1" if "?T \<and> \<not> shouldTriggerDeferBlock env"
    using that a by (simp add: triggerDeferBlock_disabled)
  have i: "renderedState (deferWhen env now rawValue w) = Rendered Complete"
    if h: "?T \<and> shouldTriggerDeferBlock env \<and> \<not> destroyed w \<and>
     NEXT_DEFER_BLOCK_STATE (lDetails w) = None \<and> notFrozen now w \<and>
     loadingState (tDetails w) = COMPLETE"
  proof -
    have "renderedState (triggerDeferBlock env now ?w1) = Rendered Complete"
      using h by (intro triggerDeferBlock_complete) simp_all
    with a h show ?thesis by simp
  qed
  have j: "renderedState (deferWhen env now rawValue w) = Rendered Error"
    if h: "?T \<and> shouldTriggerDeferBlock env \<and> \<not> destroyed w \<and>
     NEXT_DEFER_BLOCK_STATE (lDetails w) = None \<and> notFrozen now w \<and>
     loadingState (tDetails w) = FAILED \<and> errorTmplIndex (tDetails w) \<noteq> None"
  proof -
    have "renderedState (triggerDeferBlock env now ?w1) = Rendered Error"
      using h by (intro triggerDeferBlock_failed) simp_all
    with a h show ?thesis by simp
  qed
  have k: "renderedState (deferWhen env now rawValue w) = renderedState w"
    if h: "?T \<and> loadingState (tDetails w) = FAILED \<and> errorTmplIndex (tDetails w) = None"
  proof -
    have "renderedState (triggerDeferBlock env now ?w1) = renderedState ?w1"
      using h by (intro triggerDeferBlock_failed_no_template) simp_all
    with a h show ?thesis by simp
  qed
  have e: "deferWhen env now rawValue w = renderPlaceholder env now ?w1"
    if "\<not> Boolean rawValue \<and> renderedState w = Initial"
    using that by (simp add: d Let_def)
  have f: "renderedState (deferWhen env now rawValue w) = Rendered Placeholder"
    if h: "\<not> Boolean rawValue \<and> renderedState w = Initial \<and> \<not> destroyed w \<and>
     NEXT_DEFER_BLOCK_STATE (lDetails w) = None \<and> notFrozen now w \<and>
     placeholderTmplIndex (tDetails w) \<noteq> None"
  proof -
    have "renderedState (renderPlaceholder env now ?w1) = Rendered Placeholder"
      unfolding renderPlaceholder_def
      using h by (intro render_applied) (simp_all add: nextStateNum_def)
    with e h show ?thesis by simp
  qed
  have g: "renderedState (deferWhen env now rawValue w) = Initial"
    if h: "\<not> Boolean rawValue \<and> renderedState w = Initial \<and>
     placeholderTmplIndex (tDetails w) = None"
  proof -
    from h have "renderedState (renderPlaceholder env now ?w1) = renderedState ?w1"
      unfolding renderPlaceholder_def by (intro render_no_template_rendered) simp
    with e h show ?thesis by simp
  qed
  show ?thesis
    apply (intro conjI impI)
    subgoal using a by blast
    subgoal using b by blast
    subgoal using c by blast
    subgoal using l by blast
    subgoal using l by blast
    subgoal using l by blast
    subgoal using m by blast
    subgoal using n by blast
    subgoal using i by blast
    subgoal using j by blast
    subgoal using k by blast
    subgoal using e by blast
    subgoal using f by blast
    subgoal using g by blast
    done
qed



text \<open>
  Claim C7, as the code has it. The claim says that a \<open>when\<close> value turning true while
  Initial moves the block to Loading. Outside a browser \<open>triggerDeferBlock\<close> returns at
  its first check and the block stays Initial with nothing mounted; and in a browser, a
  block whose dependencies were already prefetched goes from Initial straight to
  Complete.
\<close>

theorem C7_when_true_without_loading_counterexample:
  "renderedState (deferWorld plainBlock) = Initial \<and>
   bindingSlot (deferWorld plainBlock) \<noteq> Some (JSBool True) \<and>
   renderedState (deferWhen serverEnv 0 (JSBool True) (deferWorld plainBlock)) = Initial \<and>
   lContainer (deferWhen serverEnv 0 (JSBool True) (deferWorld plainBlock)) = [] \<and>
   renderedState (runLoad browserEnv [(0, Trigger), (1, Settle [Fulfilled componentDep])]
      (deferWorld plainBlock)) = Initial \<and>
   renderedState (deferWhen browserEnv 2 (JSBool True)
      (runLoad browserEnv [(0, Trigger), (1, Settle [Fulfilled componentDep])]
         (deferWorld plainBlock))) = Rendered Complete \<and>
   lContainer (deferWhen browserEnv 2 (JSBool True)
      (runLoad browserEnv [(0, Trigger), (1, Settle [Fulfilled componentDep])]
         (deferWorld plainBlock))) = [1]"
  by (simp add: trigger_defs loading_defs engine_defs example_defs Let_def)

theorem C7_deferWhen_transitions_witness:
  "bindingSlot (deferWorld plainBlock) \<noteq> Some (JSBool True) \<and>
   Boolean (JSBool True) \<and>
   renderedState (deferWorld plainBlock) = Initial \<and>
   shouldTriggerDeferBlock browserEnv \<and>
   notFrozen 0 (deferWorld plainBlock) \<and>
   renderedState (deferWhen browserEnv 0 (JSBool True) (deferWorld plainBlock)) = Rendered Loading \<and>
   loadingState (tDetails (deferWhen browserEnv 0 (JSBool True) (deferWorld plainBlock))) = IN_PROGRESS \<and>
   resolverCalls (deferWhen browserEnv 0 (JSBool True) (deferWorld plainBlock)) = [7] \<and>
   thenCallbacks (deferWhen browserEnv 0 (JSBool True) (deferWorld plainBlock)) = [0] \<and>
   \<not> Boolean (JSNumber 0) \<and>
   renderedState (deferWhen browserEnv 0 (JSNumber 0) (deferWorld plainBlock)) = Rendered Placeholder \<and>
   bindingSlot (deferWhen browserEnv 0 (JSNumber 0) (deferWorld plainBlock)) \<noteq> Some (JSNumber 1) \<and>
   renderedState (deferWhen browserEnv 5 (JSNumber 1)
      (deferWhen browserEnv 0 (JSNumber 0) (deferWorld plainBlock))) = Rendered Loading \<and>
   \<not> shouldTriggerDeferBlock serverEnv \<and>
   deferWhen serverEnv 0 (JSBool True) (deferWorld plainBlock)
     = (deferWorld plainBlock)\<lparr>bindingSlot := Some (JSBool True)\<rparr> \<and>
   renderedState (deferWhen browserEnv 0 (JSBool True) (deferWorld noLoadingBlock)) = Initial \<and>
   loadingState (tDetails (runLoad browserEnv [(0, Trigger), (1, Settle [Fulfilled componentDep])]
      (deferWorld plainBlock))) = COMPLETE \<and>
   renderedState (deferWhen browserEnv 2 (JSBool True)
      (runLoad browserEnv [(0, Trigger), (1, Settle [Fulfilled componentDep])]
         (deferWorld plainBlock))) = Rendered Complete \<and>
   loadingState (tDetails (runLoad browserEnv [(0, Trigger), (1, Settle [Rejected])]
      (deferWorld plainBlock))) = FAILED \<and>
   renderedState (deferWhen browserEnv 2 (JSBool True)
      (runLoad browserEnv [(0, Trigger), (1, Settle [Rejected])] (deferWorld plainBlock)))
     = Rendered Error \<and>
   loadingState (tDetails (runLoad browserEnv [(0, Trigger), (1, Settle [Rejected])]
      (deferWorld noLoadingBlock))) = FAILED \<and>
   errorTmplIndex (tDetails (runLoad browserEnv [(0, Trigger), (1, Settle [Rejected])]
      (deferWorld noLoadingBlock))) = None \<and>
   renderedState (deferWhen browserEnv 2 (JSBool True)
      (runLoad browserEnv [(0, Trigger), (1, Settle [Rejected])] (deferWorld noLoadingBlock)))
     = Initial"
proof -
  let ?w0 = "deferWorld plainBlock"
  let ?wn = "deferWorld noLoadingBlock"
  let ?wp = "deferWhen browserEnv 0 (JSNumber 0) ?w0"
  let ?wc = "runLoad browserEnv [(0, Trigger), (1, Settle [Fulfilled componentDep])] ?w0"
  let ?wf = "runLoad browserEnv [(0, Trigger), (1, Settle [Rejected])] ?w0"
  let ?wg = "runLoad browserEnv [(0, Trigger), (1, Settle [Rejected])] ?wn"
  have b0: "bindingSlot ?w0 \<noteq> Some (JSBool True)" "bindingSlot ?w0 \<noteq> Some (JSNumber 0)"
    by (simp_all add: example_defs)
  have i0: "renderedState ?w0 = Initial" "\<not> destroyed ?w0" "NEXT_DEFER_BLOCK_STATE (lDetails ?w0) = None"
    "loadingState (tDetails ?w0) = NOT_STARTED" "loadingTmplIndex (tDetails ?w0) \<noteq> None"
    "getLoadingBlockAfter (tDetails ?w0) = None" "notFrozen 0 ?w0"
    "placeholderTmplIndex (tDetails ?w0) \<noteq> None"
    "resolverCalls ?w0 = []" "thenCallbacks ?w0 = []" "promiseSeq ?w0 = 0"
    "effectiveDependenciesFn browserEnv (tDetails ?w0) = Some 7"
    by (simp_all add: example_defs renderedState_def getLoadingBlockAfter_def notFrozen_def
        effectiveDependenciesFn_def)
  have e: "shouldTriggerDeferBlock browserEnv" "Boolean (JSBool True)" "\<not> Boolean (JSNumber 0)"
    "Boolean (JSNumber 1)" "\<not> shouldTriggerDeferBlock serverEnv"
    by (simp_all add: shouldTriggerDeferBlock_def example_defs)
  note T0 = C7_deferWhen_transitions [OF b0(1), of browserEnv 0]
  from T0 i0 e
  have t1: "renderedState (deferWhen browserEnv 0 (JSBool True) ?w0) = Rendered Loading"
    by blast
  from T0 [THEN conjunct2, THEN conjunct2, THEN conjunct2, THEN conjunct1] i0 e
  have t1': "loadingState (tDetails (deferWhen browserEnv 0 (JSBool True) ?w0)) = IN_PROGRESS"
    "resolverCalls (deferWhen browserEnv 0 (JSBool True) ?w0) = [7]"
    "thenCallbacks (deferWhen browserEnv 0 (JSBool True) ?w0) = [0]"
    by simp_all
  from C7_deferWhen_transitions [OF b0(2), of browserEnv 0] i0 e
  have t2: "renderedState ?wp = Rendered Placeholder"
    by blast
  have ip: "bindingSlot ?wp \<noteq> Some (JSNumber 1)" "\<not> destroyed ?wp"
    "NEXT_DEFER_BLOCK_STATE (lDetails ?wp) = None"
    "loadingState (tDetails ?wp) = NOT_STARTED" "loadingTmplIndex (tDetails ?wp) \<noteq> None"
    "getLoadingBlockAfter (tDetails ?wp) = None" "notFrozen 5 ?wp"
    by (simp_all add: trigger_defs engine_defs example_defs notFrozen_def Let_def)
  from C7_deferWhen_transitions [OF ip(1), of browserEnv 5] ip t2 e
  have t3: "renderedState (deferWhen browserEnv 5 (JSNumber 1) ?wp) = Rendered Loading"
    by blast
  from C7_deferWhen_transitions [OF b0(1), of serverEnv 0] i0 e
  have t4: "deferWhen serverEnv 0 (JSBool True) ?w0 = ?w0\<lparr>bindingSlot := Some (JSBool True)\<rparr>"
    by blast
  have bn: "bindingSlot ?wn \<noteq> Some (JSBool True)" "renderedState ?wn = Initial"
    "loadingState (tDetails ?wn) = NOT_STARTED" "loadingTmplIndex (tDetails ?wn) = None"
    by (simp_all add: example_defs renderedState_def)
  from C7_deferWhen_transitions [OF bn(1), of browserEnv 0, THEN conjunct2, THEN conjunct2, THEN conjunct2,
      THEN conjunct2, THEN conjunct1] bn e
  have t5: "renderedState (deferWhen browserEnv 0 (JSBool True) ?wn) = Initial"
    by simp
  have ic: "bindingSlot ?wc \<noteq> Some (JSBool True)" "renderedState ?wc = Initial" "\<not> destroyed ?wc"
    "NEXT_DEFER_BLOCK_STATE (lDetails ?wc) = None" "notFrozen 2 ?wc"
    "loadingState (tDetails ?wc) = COMPLETE"
    by (simp_all add: loading_defs example_defs renderedState_def notFrozen_def Let_def)
  from C7_deferWhen_transitions [OF ic(1), of browserEnv 2] ic e
  have t6: "renderedState (deferWhen browserEnv 2 (JSBool True) ?wc) = Rendered Complete"
    by blast
  have "if": "bindingSlot ?wf \<noteq> Some (JSBool True)" "renderedState ?wf = Initial" "\<not> destroyed ?wf"
    "NEXT_DEFER_BLOCK_STATE (lDetails ?wf) = None" "notFrozen 2 ?wf"
    "loadingState (tDetails ?wf) = FAILED" "errorTmplIndex (tDetails ?wf) \<noteq> None"
    by (simp_all add: loading_defs example_defs renderedState_def notFrozen_def Let_def)
  from C7_deferWhen_transitions [OF "if"(1), of browserEnv 2] "if" e
  have t7: "renderedState (deferWhen browserEnv 2 (JSBool True) ?wf) = Rendered Error"
    by blast
  have ig: "bindingSlot ?wg \<noteq> Some (JSBool True)" "renderedState ?wg = Initial"
    "loadingState (tDetails ?wg) = FAILED" "errorTmplIndex (tDetails ?wg) = None"
    by (simp_all add: loading_defs example_defs renderedState_def notFrozen_def Let_def)
  from C7_deferWhen_transitions [OF ig(1), of browserEnv 2, THEN conjunct2, THEN conjunct2, THEN conjunct2,
      THEN conjunct2, THEN conjunct2, THEN conjunct2, THEN conjunct2, THEN conjunct2, THEN conjunct1] ig e
  have t8: "renderedState (deferWhen browserEnv 2 (JSBool True) ?wg) = Initial"
    by simp
  from b0 e i0 t1 t1' t2 ip t3 t4 t5 ic "if" ig t6 t7 t8 show ?thesis by (simp only: simp_thms)
qed

section \<open>Properties of the loading delay\<close>









lemma handleError_slots [simp]:
  "timers (handleError e w) = timers w"
  "lDetails (handleError e w) = lDetails w"
  "tDetails (handleError e w) = tDetails w"
  "lContainer (handleError e w) = lContainer w"
  by (simp_all add: handleError_def)

lemma notFrozen_updates [simp]:
  "notFrozen t (handleError e w) = notFrozen t w"
  "notFrozen t (w\<lparr>lDetails := (lDetails v)\<lparr>STATE_IS_FROZEN_UNTIL := None\<rparr>\<rparr>)"
  by (simp_all add: notFrozen_def)






lemma invokeCleanupFn_cancels:
  "i \<notin> fst ` set (timers (invokeCleanupFn (CancelTimer i) w))"
  by auto


lemma stopLoadingAfter_frozen [simp]:
  "STATE_IS_FROZEN_UNTIL (lDetails (stopLoadingAfter s w)) = STATE_IS_FROZEN_UNTIL (lDetails w)"
  by (simp add: stopLoadingAfter_def Let_def split: option.splits)

lemma terminal_state_cases: "stateNum Loading < stateNum s \<longleftrightarrow> s = Complete \<or> s = Error"
  by (cases s) simp_all

lemma minimum_terminal [simp]:
  "s = Complete \<or> s = Error \<Longrightarrow> getMinimumDurationForState t s = None"
  by auto





lemma applyDeferBlockState_destroyed [simp]:
  "destroyed (fst (applyDeferBlockState env s w)) = destroyed w"
  by (simp add: applyDeferBlockState_def Let_def split: option.splits)

lemma stopLoadingAfter_static [simp]:
  "destroyed (stopLoadingAfter s w) = destroyed w"
  "tDetails (stopLoadingAfter s w) = tDetails w"
  by (simp_all add: stopLoadingAfter_def Let_def split: option.splits CleanupFn.splits)

lemma handleError_destroyed [simp]: "destroyed (handleError e w) = destroyed w"
  by (simp add: handleError_def)





















end
